theory Spec2Isabelle
  imports Main "HOL-Library.Sublist"
begin

section \<open>Data model\<close>

text \<open>
  The graph walking code of \<^verbatim>\<open>innvestigate/utils/keras/graph.py\<close> only ever asks two
  questions about a layer: whether it is a \<^verbatim>\<open>keras.layers.InputLayer\<close> and whether it is
  a container (\<^verbatim>\<open>kchecks.is_network\<close>). A layer is therefore an identity together with
  its kind.
\<close>

datatype layer_kind = InputLayer | Network | Primitive

datatype layer = Layer (layer_name: nat) (kind: layer_kind)

definition is_input_layer :: "layer \<Rightarrow> bool" where
  "is_input_layer l = (kind l = InputLayer)"

definition is_network :: "layer \<Rightarrow> bool" where
  "is_network l = (kind l = Network)"

text \<open>
  An execution record is the triple \<^verbatim>\<open>(layer, input_tensors, output_tensors)\<close>. Tensors
  are compared by identity only, so the type of tensors is a parameter.
\<close>

type_synonym 't node = "layer \<times> 't list \<times> 't list"

text \<open>The exceptions the code can raise, one constructor per Python exception type.\<close>

datatype error =
    NotImplementedError
  | KeyError
  | AssertionError
  | TypeError
  | ValueError
  | Exception string

text \<open>Propagation of an exception through a sequence of statements.\<close>

definition then_do :: "error + 'a \<Rightarrow> ('a \<Rightarrow> error + 'b) \<Rightarrow> error + 'b" where
  "then_do m f = (case m of Inl e \<Rightarrow> Inl e | Inr x \<Rightarrow> f x)"

section \<open>Tracing: the pruning pass\<close>

text \<open>
  Lines 673 to 679 of \<^verbatim>\<open>trace_model_execution\<close>:
  \<^verbatim>\<open>
    used_as_input = [x for x in outputs]
    tmp = []
    for l, Xs, Ys in reversed(executed_nodes):
        if all([y in used_as_input for y in Ys]):
            used_as_input += Xs
            tmp.append((l, Xs, Ys))
    executed_nodes = list(reversed(tmp))
  \<close>
  The loop state is the pair \<^verbatim>\<open>(used_as_input, tmp)\<close>.
\<close>

fun prune_loop :: "'t node list \<Rightarrow> 't list \<times> 't node list \<Rightarrow> 't list \<times> 't node list" where
  "prune_loop [] (used_as_input, tmp) = (used_as_input, tmp)"
| "prune_loop ((l, Xs, Ys) # rest) (used_as_input, tmp) =
     (if list_all (\<lambda>y. y \<in> set used_as_input) Ys
      then prune_loop rest (used_as_input @ Xs, tmp @ [(l, Xs, Ys)])
      else prune_loop rest (used_as_input, tmp))"

definition prune_executed_nodes :: "'t list \<Rightarrow> 't node list \<Rightarrow> 't node list" where
  "prune_executed_nodes outputs executed_nodes =
     rev (snd (prune_loop (rev executed_nodes) (outputs, [])))"

text \<open>
  The pruning pass as the specification words it. \<open>needed_after outputs rs\<close> is the set
  of tensors marked needed once the reverse scan has visited every record of the forward
  suffix \<open>rs\<close>; a record in front of \<open>rs\<close> is kept exactly if all its outputs are in it.
\<close>

fun needed_after :: "'t list \<Rightarrow> 't node list \<Rightarrow> 't set" where
  "needed_after outputs [] = set outputs"
| "needed_after outputs ((l, Xs, Ys) # rs) =
     (if set Ys \<subseteq> needed_after outputs rs
      then needed_after outputs rs \<union> set Xs
      else needed_after outputs rs)"

fun kept_by_scan :: "'t list \<Rightarrow> 't node list \<Rightarrow> 't node list" where
  "kept_by_scan outputs [] = []"
| "kept_by_scan outputs ((l, Xs, Ys) # rs) =
     (if set Ys \<subseteq> needed_after outputs rs
      then (l, Xs, Ys) # kept_by_scan outputs rs
      else kept_by_scan outputs rs)"

section \<open>Tracing: the model and its trace\<close>

text \<open>
  Of a Keras model the code reads \<^verbatim>\<open>model.inputs\<close>, \<^verbatim>\<open>model.outputs\<close>, the layer
  list of \<^verbatim>\<open>get_model_layers\<close> and the invocations that tracing records, in forward
  order and before pruning (the reversed \<^verbatim>\<open>_nodes_by_depth\<close> listing of a flat model,
  or the re-applied invocations of a model with containers, whose regenerated outputs
  are then \<open>model_outputs\<close>). Keras itself is not part of the repository, so these four
  are the fields of the model.
\<close>

record 't model =
  model_inputs :: "'t list"
  model_outputs :: "'t list"
  model_layers :: "layer list"
  model_nodes :: "'t node list"

definition trace_model_execution :: "'t model \<Rightarrow> layer list \<times> 't node list \<times> 't list" where
  "trace_model_execution m =
     (model_layers m, prune_executed_nodes (model_outputs m) (model_nodes m), model_outputs m)"

section \<open>Node identifiers and the tensor lookups\<close>

text \<open>
  Lines 723 to 730 of \<^verbatim>\<open>get_model_execution_trace\<close>:
  \<^verbatim>\<open>
    current_nid = 0
    id_execution_trace = []
    for l, Xs, Ys in execution_trace:
        if isinstance(l, keras.layers.InputLayer):
            id_execution_trace.append((None, l, Xs, Ys))
        else:
            id_execution_trace.append((current_nid, l, Xs, Ys))
            current_nid += 1
  \<close>
\<close>

fun assign_nids :: "int \<Rightarrow> 't node list \<Rightarrow> (int option \<times> 't node) list" where
  "assign_nids current_nid [] = []"
| "assign_nids current_nid ((l, Xs, Ys) # rest) =
     (if is_input_layer l
      then (None, l, Xs, Ys) # assign_nids current_nid rest
      else (Some current_nid, l, Xs, Ys) # assign_nids (current_nid + 1) rest)"

definition id_execution_trace :: "'t node list \<Rightarrow> (int option \<times> 't node) list" where
  "id_execution_trace execution_trace = assign_nids 0 execution_trace"

text \<open>
  Lines 736 to 752, the two lookups keyed by tensor identity:
  \<^verbatim>\<open>
    for nid, _l, Xs, Ys in id_execution_trace:
        if nid is not None:
            for X in Xs:
                Xid = id(X)
                if Xid in inputs_to_node:
                    inputs_to_node[Xid].append(nid)
                else:
                    inputs_to_node[Xid] = [nid]
        if keep_input_layers or nid is not None:
            for Y in Ys:
                Yid = id(Y)
                if Yid in inputs_to_node:
                    raise Exception("Cannot be more than one creating node.")
                outputs_to_node[Yid] = nid
  \<close>
\<close>

fun register_inputs :: "int \<Rightarrow> 't list \<Rightarrow> ('t \<rightharpoonup> int list) \<Rightarrow> ('t \<rightharpoonup> int list)" where
  "register_inputs n [] inputs_to_node = inputs_to_node"
| "register_inputs n (X # Xs) inputs_to_node =
     register_inputs n Xs
       (case inputs_to_node X of
          Some ns \<Rightarrow> inputs_to_node(X \<mapsto> ns @ [n])
        | None \<Rightarrow> inputs_to_node(X \<mapsto> [n]))"

fun register_outputs ::
  "int option \<Rightarrow> 't list \<Rightarrow> ('t \<rightharpoonup> int list) \<Rightarrow> ('t \<rightharpoonup> int option)
   \<Rightarrow> error + ('t \<rightharpoonup> int option)" where
  "register_outputs n [] inputs_to_node outputs_to_node = Inr outputs_to_node"
| "register_outputs n (Y # Ys) inputs_to_node outputs_to_node =
     (if inputs_to_node Y \<noteq> None
      then Inl (Exception ''Cannot be more than one creating node.'')
      else register_outputs n Ys inputs_to_node (outputs_to_node(Y \<mapsto> n)))"

fun build_lookups ::
  "bool \<Rightarrow> (int option \<times> 't node) list \<Rightarrow> ('t \<rightharpoonup> int list) \<Rightarrow> ('t \<rightharpoonup> int option)
   \<Rightarrow> error + ('t \<rightharpoonup> int list) \<times> ('t \<rightharpoonup> int option)" where
  "build_lookups keep_input_layers [] inputs_to_node outputs_to_node =
     Inr (inputs_to_node, outputs_to_node)"
| "build_lookups keep_input_layers ((n, l, Xs, Ys) # rest) inputs_to_node outputs_to_node =
     (let inputs_to_node' =
            (case n of Some i \<Rightarrow> register_inputs i Xs inputs_to_node | None \<Rightarrow> inputs_to_node)
      in if keep_input_layers \<or> n \<noteq> None
         then then_do (register_outputs n Ys inputs_to_node' outputs_to_node)
                (build_lookups keep_input_layers rest inputs_to_node')
         else build_lookups keep_input_layers rest inputs_to_node' outputs_to_node)"

text \<open>
  The part of \<^verbatim>\<open>get_model_execution_trace\<close> up to the lookups: trace, identify, index.
\<close>

definition trace_lookups ::
  "'t model \<Rightarrow> bool \<Rightarrow> error + ('t \<rightharpoonup> int list) \<times> ('t \<rightharpoonup> int option)" where
  "trace_lookups m keep_input_layers =
     (case trace_model_execution m of (layers, execution_trace, outputs) \<Rightarrow>
        build_lookups keep_input_layers (id_execution_trace execution_trace)
          Map.empty Map.empty)"

section \<open>Bottleneck nodes and tensors\<close>

text \<open>
  \<^verbatim>\<open>get_bottleneck_nodes\<close>, lines 896 to 933. \<^verbatim>\<open>forward_connections\<close> is a dictionary
  from a tensor to the list of outputs of the records consuming it:
  \<^verbatim>\<open>
    for l, Xs, Ys in execution_list:
        if isinstance(l, keras.layers.InputLayer):
            continue
        for x in Xs:
            if x in forward_connections:
                forward_connections[x] += Ys
            else:
                forward_connections[x] = list(Ys)
  \<close>
\<close>

fun connect :: "'t list \<Rightarrow> 't list \<Rightarrow> ('t \<rightharpoonup> 't list) \<Rightarrow> ('t \<rightharpoonup> 't list)" where
  "connect [] Ys forward_connections = forward_connections"
| "connect (x # Xs) Ys forward_connections =
     connect Xs Ys
       (case forward_connections x of
          Some cs \<Rightarrow> forward_connections(x \<mapsto> cs @ Ys)
        | None \<Rightarrow> forward_connections(x \<mapsto> Ys))"

fun build_forward_connections ::
  "'t node list \<Rightarrow> ('t \<rightharpoonup> 't list) \<Rightarrow> ('t \<rightharpoonup> 't list)" where
  "build_forward_connections [] forward_connections = forward_connections"
| "build_forward_connections ((l, Xs, Ys) # rest) forward_connections =
     (if is_input_layer l
      then build_forward_connections rest forward_connections
      else build_forward_connections rest (connect Xs Ys forward_connections))"

text \<open>
  \<^verbatim>\<open>open_connections\<close> is a dictionary whose values are all \<^verbatim>\<open>True\<close>; only its keys
  matter, and they are kept here in insertion order.
  \<^verbatim>\<open>
    for X in inputs:
        for fw_c in forward_connections[X]:
            open_connections[fw_c] = True
  \<close>
\<close>

fun open_all :: "'t list \<Rightarrow> 't list \<Rightarrow> 't list" where
  "open_all [] open_connections = open_connections"
| "open_all (fw_c # cs) open_connections =
     open_all cs
       (if fw_c \<in> set open_connections then open_connections else open_connections @ [fw_c])"

fun open_inputs :: "('t \<rightharpoonup> 't list) \<Rightarrow> 't list \<Rightarrow> 't list \<Rightarrow> error + 't list" where
  "open_inputs forward_connections [] open_connections = Inr open_connections"
| "open_inputs forward_connections (X # Xs) open_connections =
     (case forward_connections X of
        None \<Rightarrow> Inl KeyError
      | Some cs \<Rightarrow> open_inputs forward_connections Xs (open_all cs open_connections))"

text \<open>
  The walk over the records:
  \<^verbatim>\<open>
    for l, Xs, Ys in execution_list:
        if isinstance(l, keras.layers.InputLayer):
            continue
        for Y in Ys:
            assert Y in open_connections
            del open_connections[Y]
        if len(open_connections) == 0:
            ret.append((l, (Xs, Ys)))
        for Y in Ys:
            if Y not in outputs:
                for fw_c in forward_connections[Y]:
                    open_connections[fw_c] = True
  \<close>
\<close>

fun close_outputs :: "'t list \<Rightarrow> 't list \<Rightarrow> error + 't list" where
  "close_outputs [] open_connections = Inr open_connections"
| "close_outputs (Y # Ys) open_connections =
     (if Y \<notin> set open_connections then Inl AssertionError
      else close_outputs Ys (removeAll Y open_connections))"

fun open_outputs ::
  "('t \<rightharpoonup> 't list) \<Rightarrow> 't list \<Rightarrow> 't list \<Rightarrow> 't list \<Rightarrow> error + 't list" where
  "open_outputs forward_connections outputs [] open_connections = Inr open_connections"
| "open_outputs forward_connections outputs (Y # Ys) open_connections =
     (if Y \<notin> set outputs
      then (case forward_connections Y of
              None \<Rightarrow> Inl KeyError
            | Some cs \<Rightarrow>
                open_outputs forward_connections outputs Ys (open_all cs open_connections))
      else open_outputs forward_connections outputs Ys open_connections)"

type_synonym 't bottleneck = "layer \<times> ('t list \<times> 't list)"

fun bottleneck_walk ::
  "('t \<rightharpoonup> 't list) \<Rightarrow> 't list \<Rightarrow> 't node list \<Rightarrow> 't list \<Rightarrow> 't bottleneck list
   \<Rightarrow> error + 't bottleneck list" where
  "bottleneck_walk forward_connections outputs [] open_connections ret = Inr ret"
| "bottleneck_walk forward_connections outputs ((l, Xs, Ys) # rest) open_connections ret =
     (if is_input_layer l
      then bottleneck_walk forward_connections outputs rest open_connections ret
      else
        then_do (close_outputs Ys open_connections) (\<lambda>closed.
        then_do (open_outputs forward_connections outputs Ys closed) (\<lambda>reopened.
          bottleneck_walk forward_connections outputs rest reopened
            (if length closed = 0 then ret @ [(l, (Xs, Ys))] else ret))))"

definition get_bottleneck_nodes ::
  "'t list \<Rightarrow> 't list \<Rightarrow> 't node list \<Rightarrow> error + 't bottleneck list" where
  "get_bottleneck_nodes inputs outputs execution_list =
     (let forward_connections = build_forward_connections execution_list Map.empty
      in then_do (open_inputs forward_connections inputs [])
           (\<lambda>open_connections.
              bottleneck_walk forward_connections outputs execution_list open_connections []))"

text \<open>
  \<^verbatim>\<open>get_bottleneck_tensors\<close>, lines 949 to 959: of every bottleneck record, the input
  list and then the output list contribute their tensor if they hold exactly one.
\<close>

definition add_single :: "'t list \<Rightarrow> 't list \<Rightarrow> 't list" where
  "add_single tensor_list ret =
     (case tensor_list of
        [t] \<Rightarrow> (if t \<notin> set ret then ret @ [t] else ret)
      | _ \<Rightarrow> ret)"

fun collect_bottleneck_tensors :: "'t bottleneck list \<Rightarrow> 't list \<Rightarrow> 't list" where
  "collect_bottleneck_tensors [] ret = ret"
| "collect_bottleneck_tensors ((l, (Xs, Ys)) # nodes) ret =
     collect_bottleneck_tensors nodes (add_single Ys (add_single Xs ret))"

definition get_bottleneck_tensors :: "'t list \<Rightarrow> 't list \<Rightarrow> 't node list \<Rightarrow> error + 't list" where
  "get_bottleneck_tensors inputs outputs execution_list =
     then_do (get_bottleneck_nodes inputs outputs execution_list)
       (\<lambda>nodes. Inr (collect_bottleneck_tensors nodes []))"

text \<open>
  The bottleneck analysis as the specification words it, on sets. A tensor has
  successors once a non-input record consumes it; its successors are the outputs of all
  its consumers.
\<close>

definition consumers :: "'t node list \<Rightarrow> 't \<Rightarrow> 't node list" where
  "consumers execution_list t =
     filter (\<lambda>(l, Xs, Ys). \<not> is_input_layer l \<and> t \<in> set Xs) execution_list"

definition successors :: "'t node list \<Rightarrow> 't \<Rightarrow> 't set" where
  "successors execution_list t =
     set (concat (map (\<lambda>(l, Xs, Ys). Ys) (consumers execution_list t)))"

definition expand :: "'t node list \<Rightarrow> 't list \<Rightarrow> 't set" where
  "expand execution_list ts = (\<Union>t \<in> set ts. successors execution_list t)"

definition expandable :: "'t node list \<Rightarrow> 't list \<Rightarrow> bool" where
  "expandable execution_list ts = list_all (\<lambda>t. consumers execution_list t \<noteq> []) ts"

text \<open>
  The frontier walk: at a non-input record every output tensor must be open (each is
  removed on its own, so it is listed once); they are removed, the record is a
  bottleneck if the frontier is then empty, and the frontier is expanded through the
  outputs that are not declared outputs.
\<close>

fun frontier_walk ::
  "'t node list \<Rightarrow> 't list \<Rightarrow> 't node list \<Rightarrow> 't set \<Rightarrow> 't bottleneck list option" where
  "frontier_walk execution_list outputs [] frontier = Some []"
| "frontier_walk execution_list outputs ((l, Xs, Ys) # rest) frontier =
     (if is_input_layer l then frontier_walk execution_list outputs rest frontier
      else if \<not> (distinct Ys \<and> set Ys \<subseteq> frontier) then None
      else if \<not> expandable execution_list (filter (\<lambda>y. y \<notin> set outputs) Ys) then None
      else
        (case frontier_walk execution_list outputs rest
                ((frontier - set Ys)
                 \<union> expand execution_list (filter (\<lambda>y. y \<notin> set outputs) Ys)) of
           None \<Rightarrow> None
         | Some ret \<Rightarrow>
             Some (if frontier - set Ys = {} then (l, (Xs, Ys)) # ret else ret)))"

definition frontier_bottlenecks ::
  "'t list \<Rightarrow> 't list \<Rightarrow> 't node list \<Rightarrow> 't bottleneck list option" where
  "frontier_bottlenecks inputs outputs execution_list =
     (if expandable execution_list inputs
      then frontier_walk execution_list outputs execution_list (expand execution_list inputs)
      else None)"

section \<open>Reversal: the per-tensor state\<close>

text \<open>
  \<^verbatim>\<open>reversed_tensors\<close> maps a forward tensor to a dictionary with the keys \<^verbatim>\<open>id\<close>,
  \<^verbatim>\<open>tensor\<close>, \<^verbatim>\<open>tensors\<close> and \<^verbatim>\<open>final_tensor\<close>; \<^verbatim>\<open>None\<close> is \<open>None\<close>. The type \<open>'v\<close>
  of backward values is a parameter: the code only adds, projects and clips them.
\<close>

record 'v reverse_tensor =
  id_key :: "int \<times> nat"
  tensor :: "'v option"
  tensors :: "'v list option"
  final_tensor :: "'v option"

type_synonym ('t, 'v) reversed_tensors = "'t \<rightharpoonup> 'v reverse_tensor"

text \<open>
  \<^verbatim>\<open>clip_all_reversed_tensors\<close> is \<^verbatim>\<open>False\<close>, \<^verbatim>\<open>True\<close> or a tuple, and
  \<^verbatim>\<open>project_bottleneck_tensors\<close> is \<^verbatim>\<open>False\<close> or something else. The layers
  \<^verbatim>\<open>ilayers.Clip(*clip_all_reversed_tensors)\<close> and
  \<^verbatim>\<open>ilayers.Project(project_bottleneck_tensors)\<close> live in another module of the
  package; the function each of them computes is carried by the constructor.
\<close>

datatype 'v clip_arg = ClipFalse | ClipTrue | ClipTuple "'v \<Rightarrow> 'v"

datatype 'v project_arg = ProjectFalse | ProjectRange "'v \<Rightarrow> 'v"

text \<open>
  \<^verbatim>\<open>keras.layers.Add()\<close> refuses anything but a list of at least two tensors and adds
  them from the left.
\<close>

fun keras_Add :: "'v::plus list option \<Rightarrow> error + 'v" where
  "keras_Add (Some (a # b # rest)) = Inr (foldl (+) a (b # rest))"
| "keras_Add _ = Inl ValueError"

text \<open>
  \<^verbatim>\<open>add_reversed_tensor\<close>, lines 1063 to 1084:
  \<^verbatim>\<open>
    if X in stop_mapping_at_tensors:
        return
    if X not in reversed_tensors:
        reversed_tensors[X] = {"id": (nid, i), "tensor": reversed_X,
                               "tensors": None, "final_tensor": None}
    else:
        tmp = reversed_tensors[X]
        if tmp["tensor"] is not None:
            if tmp["tensors"] is not None:
                raise Exception("Wrong order, tensors already aggregated!")
            tmp["tensors"] = [tmp["tensor"], reversed_X]
            tmp["tensor"] = None
        else:
            raise Exception("Error during reverse tensor aggeregation.")
  \<close>
\<close>

definition add_reversed_tensor ::
  "'t list \<Rightarrow> int \<Rightarrow> nat \<Rightarrow> 't \<Rightarrow> 'v \<Rightarrow> ('t, 'v) reversed_tensors
   \<Rightarrow> error + ('t, 'v) reversed_tensors" where
  "add_reversed_tensor stop_mapping_at_tensors n i X reversed_X reversed_tensors =
     (if X \<in> set stop_mapping_at_tensors then Inr reversed_tensors
      else
        (case reversed_tensors X of
           None \<Rightarrow>
             Inr (reversed_tensors(X \<mapsto>
                    \<lparr>id_key = (n, i), tensor = Some reversed_X,
                     tensors = None, final_tensor = None\<rparr>))
         | Some tmp \<Rightarrow>
             (case tensor tmp of
                Some v \<Rightarrow>
                  (if tensors tmp \<noteq> None
                   then Inl (Exception ''Wrong order, tensors already aggregated!'')
                   else Inr (reversed_tensors(X \<mapsto>
                               tmp\<lparr>tensors := Some [v, reversed_X], tensor := None\<rparr>)))
              | None \<Rightarrow> Inl (Exception ''Error during reverse tensor aggeregation.''))))"

text \<open>
  \<^verbatim>\<open>add_reversed_tensors\<close>, lines 1086 to 1088: \<^verbatim>\<open>enumerate(zip(...))\<close>, so the shorter
  list decides how many tensors are reached.
\<close>

fun add_reversed_tensors_from ::
  "'t list \<Rightarrow> int \<Rightarrow> nat \<Rightarrow> 't list \<Rightarrow> 'v list \<Rightarrow> ('t, 'v) reversed_tensors
   \<Rightarrow> error + ('t, 'v) reversed_tensors" where
  "add_reversed_tensors_from stop_mapping_at_tensors n i (X # Xs) (reversed_X # reversed_Xs)
       reversed_tensors =
     then_do (add_reversed_tensor stop_mapping_at_tensors n i X reversed_X reversed_tensors)
       (add_reversed_tensors_from stop_mapping_at_tensors n (Suc i) Xs reversed_Xs)"
| "add_reversed_tensors_from stop_mapping_at_tensors n i Xs reversed_Xs reversed_tensors =
     Inr reversed_tensors"

definition add_reversed_tensors ::
  "'t list \<Rightarrow> int \<Rightarrow> 't list \<Rightarrow> 'v list \<Rightarrow> ('t, 'v) reversed_tensors
   \<Rightarrow> error + ('t, 'v) reversed_tensors" where
  "add_reversed_tensors stop_mapping_at_tensors n tensors_list reversed_tensors_list =
     add_reversed_tensors_from stop_mapping_at_tensors n 0 tensors_list reversed_tensors_list"

text \<open>
  \<^verbatim>\<open>get_reversed_tensor\<close>, lines 1090 to 1111:
  \<^verbatim>\<open>
    tmp = reversed_tensors[tensor]
    if tmp["final_tensor"] is None:
        if tmp["tensor"] is None:
            final_tensor = keras.layers.Add()(tmp["tensors"])
        else:
            final_tensor = tmp["tensor"]
        if project_bottleneck_tensors is not False:
            if tensor in bottleneck_tensors:
                project = ilayers.Project(project_bottleneck_tensors)
                final_tensor = project(final_tensor)
        if isinstance(clip_all_reversed_tensors, tuple):
            clip = ilayers.Clip(*clip_all_reversed_tensors)
            final_tensor = clip(final_tensor)
        tmp["final_tensor"] = final_tensor
    return tmp["final_tensor"]
  \<close>
\<close>

definition project_and_clip ::
  "'v clip_arg \<Rightarrow> 'v project_arg \<Rightarrow> 't list \<Rightarrow> 't \<Rightarrow> 'v \<Rightarrow> 'v" where
  "project_and_clip clip_all_reversed_tensors project_bottleneck_tensors bottleneck_tensors
       t final =
     (let projected =
            (case project_bottleneck_tensors of
               ProjectRange project \<Rightarrow>
                 (if t \<in> set bottleneck_tensors then project final else final)
             | ProjectFalse \<Rightarrow> final)
      in case clip_all_reversed_tensors of
           ClipTuple clip \<Rightarrow> clip projected
         | _ \<Rightarrow> projected)"

definition get_reversed_tensor ::
  "'v clip_arg \<Rightarrow> 'v project_arg \<Rightarrow> 't list \<Rightarrow> 't \<Rightarrow> ('t, 'v::plus) reversed_tensors
   \<Rightarrow> error + 'v \<times> ('t, 'v) reversed_tensors" where
  "get_reversed_tensor clip_all_reversed_tensors project_bottleneck_tensors bottleneck_tensors
       t reversed_tensors =
     (case reversed_tensors t of
        None \<Rightarrow> Inl KeyError
      | Some tmp \<Rightarrow>
          (case final_tensor tmp of
             Some final \<Rightarrow> Inr (final, reversed_tensors)
           | None \<Rightarrow>
               then_do (case tensor tmp of
                          None \<Rightarrow> keras_Add (tensors tmp)
                        | Some v \<Rightarrow> Inr v)
                 (\<lambda>base.
                    let final = project_and_clip clip_all_reversed_tensors
                                  project_bottleneck_tensors bottleneck_tensors t base
                    in Inr (final, reversed_tensors(t \<mapsto> tmp\<lparr>final_tensor := Some final\<rparr>)))))"

text \<open>The list comprehension \<^verbatim>\<open>[get_reversed_tensor(t) for t in ts]\<close>, left to right.\<close>

fun get_reversed_tensors ::
  "'v clip_arg \<Rightarrow> 'v project_arg \<Rightarrow> 't list \<Rightarrow> 't list \<Rightarrow> ('t, 'v::plus) reversed_tensors
   \<Rightarrow> error + 'v list \<times> ('t, 'v) reversed_tensors" where
  "get_reversed_tensors c p bts [] reversed_tensors = Inr ([], reversed_tensors)"
| "get_reversed_tensors c p bts (t # ts) reversed_tensors =
     then_do (get_reversed_tensor c p bts t reversed_tensors) (\<lambda>(v, reversed_tensors').
     then_do (get_reversed_tensors c p bts ts reversed_tensors') (\<lambda>(vs, reversed_tensors'').
       Inr (v # vs, reversed_tensors'')))"

section \<open>Reversal: rules and their resolution\<close>

text \<open>
  A reverse rule is called with \<^verbatim>\<open>Xs\<close>, \<^verbatim>\<open>Ys\<close>, \<^verbatim>\<open>reversed_Ys\<close> and a dictionary with
  the keys \<^verbatim>\<open>nid\<close>, \<^verbatim>\<open>model\<close>, \<^verbatim>\<open>layer\<close> and \<^verbatim>\<open>stop_mapping_at_tensors\<close>.
\<close>

record 't reverse_state =
  rs_nid :: int
  rs_model :: "'t model"
  rs_layer :: layer
  rs_stop_mapping_at_tensors :: "'t list"

type_synonym ('t, 'v) reverse_mapping =
  "'t list \<Rightarrow> 't list \<Rightarrow> 'v list \<Rightarrow> 't reverse_state \<Rightarrow> 'v list"

text \<open>
  What \<^verbatim>\<open>reverse_mappings(layer)\<close> may return besides \<^verbatim>\<open>None\<close>: a subclass of
  \<^verbatim>\<open>ReverseMappingBase\<close>, instantiated with the layer and the model; a function of two
  parameters, called with the same two to obtain the rule; or the rule itself.
\<close>

datatype ('t, 'v) meta_mapping =
    MappingClass "layer \<Rightarrow> 't model \<Rightarrow> ('t, 'v) reverse_mapping"
  | MappingFactory "layer \<Rightarrow> 't model \<Rightarrow> ('t, 'v) reverse_mapping"
  | MappingFunction "('t, 'v) reverse_mapping"

text \<open>Lines 1132 to 1185: one entry per layer, \<^verbatim>\<open>None\<close> where nothing resolves.\<close>

definition initialize_reverse_mapping ::
  "'t model \<Rightarrow> (layer \<Rightarrow> ('t, 'v) meta_mapping option) \<Rightarrow> ('t, 'v) reverse_mapping option
   \<Rightarrow> layer \<Rightarrow> ('t, 'v) reverse_mapping option" where
  "initialize_reverse_mapping m reverse_mappings default_reverse_mapping l =
     (case reverse_mappings l of
        None \<Rightarrow> default_reverse_mapping
      | Some (MappingClass cls) \<Rightarrow> Some (cls l m)
      | Some (MappingFactory factory) \<Rightarrow> Some (factory l m)
      | Some (MappingFunction f) \<Rightarrow> Some f)"

fun initialize_reverse_mappings ::
  "'t model \<Rightarrow> (layer \<Rightarrow> ('t, 'v) meta_mapping option) \<Rightarrow> ('t, 'v) reverse_mapping option
   \<Rightarrow> layer list \<Rightarrow> (layer \<rightharpoonup> ('t, 'v) reverse_mapping option)
   \<Rightarrow> (layer \<rightharpoonup> ('t, 'v) reverse_mapping option)" where
  "initialize_reverse_mappings m reverse_mappings default_reverse_mapping []
       initialized_reverse_mappings = initialized_reverse_mappings"
| "initialize_reverse_mappings m reverse_mappings default_reverse_mapping (l # layers)
       initialized_reverse_mappings =
     initialize_reverse_mappings m reverse_mappings default_reverse_mapping layers
       (initialized_reverse_mappings(l \<mapsto>
          initialize_reverse_mapping m reverse_mappings default_reverse_mapping l))"

section \<open>Reversal: the backward walk\<close>

text \<open>
  The arguments of \<^verbatim>\<open>reverse_model\<close>. \<^verbatim>\<open>head_mapping\<close> gives the backward value an
  output tensor is seeded with (by default the output tensor itself);
  \<^verbatim>\<open>stop_mapping_at_tensors\<close> defaults to the empty list. \<^verbatim>\<open>verbose\<close> only prints and
  \<^verbatim>\<open>reapply_on_copied_layers\<close> only reaches Keras.
\<close>

record ('t, 'v) reverse_args =
  model :: "'t model"
  reverse_mappings :: "layer \<Rightarrow> ('t, 'v) meta_mapping option"
  default_reverse_mapping :: "('t, 'v) reverse_mapping option"
  head_mapping :: "'t \<Rightarrow> 'v"
  stop_mapping_at_tensors :: "'t list"
  return_all_reversed_tensors :: bool
  clip_all_reversed_tensors :: "'v clip_arg"
  project_bottleneck_tensors :: "'v project_arg"
  execution_trace :: "(layer list \<times> 't node list \<times> 't list) option"

text \<open>
  Lines 1196 to 1232, over \<^verbatim>\<open>enumerate(reversed(execution_list))\<close>; \<open>k\<close> is the
  enumeration index \<^verbatim>\<open>_nid\<close> and \<open>wo\<close> is \<^verbatim>\<open>len_execution_list_wo_inputs_layers\<close>:
  \<^verbatim>\<open>
    nid = len_execution_list_wo_inputs_layers - _nid - 1
    if isinstance(layer, keras.layers.InputLayer):
        pass
    elif kchecks.is_network(layer):
        raise Exception("This is not supposed to happen!")
    else:
        if not all([ys in reversed_tensors for ys in Ys]):
            continue
        reversed_Ys = [get_reversed_tensor(ys) for ys in Ys]
        local_stop_mapping_at_tensors = [x for x in Xs if x in stop_mapping_at_tensors]
        reverse_mapping = initialized_reverse_mappings[layer]
        reversed_Xs = reverse_mapping(Xs, Ys, reversed_Ys, {...})
        add_reversed_tensors(nid, Xs, reversed_Xs)
  \<close>
\<close>

definition walk_nid :: "nat \<Rightarrow> nat \<Rightarrow> int" where
  "walk_nid wo k = int wo - int k - 1"

fun reverse_walk ::
  "('t, 'v::plus) reverse_args \<Rightarrow> 't list
   \<Rightarrow> (layer \<rightharpoonup> ('t, 'v) reverse_mapping option) \<Rightarrow> nat \<Rightarrow> nat \<Rightarrow> 't node list
   \<Rightarrow> ('t, 'v) reversed_tensors \<Rightarrow> error + ('t, 'v) reversed_tensors" where
  "reverse_walk args bts initialized_reverse_mappings wo k [] reversed_tensors =
     Inr reversed_tensors"
| "reverse_walk args bts initialized_reverse_mappings wo k ((l, Xs, Ys) # rest)
       reversed_tensors =
     (if is_input_layer l
      then reverse_walk args bts initialized_reverse_mappings wo (Suc k) rest reversed_tensors
      else if is_network l then Inl (Exception ''This is not supposed to happen!'')
      else if \<not> list_all (\<lambda>ys. reversed_tensors ys \<noteq> None) Ys
      then reverse_walk args bts initialized_reverse_mappings wo (Suc k) rest reversed_tensors
      else
        then_do (get_reversed_tensors (clip_all_reversed_tensors args)
                   (project_bottleneck_tensors args) bts Ys reversed_tensors)
          (\<lambda>(reversed_Ys, reversed_tensors').
             (case initialized_reverse_mappings l of
                None \<Rightarrow> Inl KeyError
              | Some None \<Rightarrow> Inl TypeError
              | Some (Some reverse_mapping) \<Rightarrow>
                  then_do (add_reversed_tensors (stop_mapping_at_tensors args) (walk_nid wo k) Xs
                             (reverse_mapping Xs Ys reversed_Ys
                                \<lparr>rs_nid = walk_nid wo k, rs_model = model args, rs_layer = l,
                                 rs_stop_mapping_at_tensors =
                                   filter (\<lambda>x. x \<in> set (stop_mapping_at_tensors args)) Xs\<rparr>)
                             reversed_tensors')
                    (reverse_walk args bts initialized_reverse_mappings wo (Suc k) rest))))"

text \<open>What \<^verbatim>\<open>reverse_model\<close> returns, with or without the map of all reversed tensors.\<close>

datatype ('t, 'v) reversed =
    ReversedInputs "'v list"
  | ReversedAll "'v list" "('t, 'v) reversed_tensors"

text \<open>
  \<^verbatim>\<open>reverse_model\<close>: the check of \<^verbatim>\<open>clip_all_reversed_tensors\<close> (lines 1045 to 1049),
  the trace (1117 to 1127), the rules (1132 to 1185), the bottleneck tensors
  (1187 to 1190), the seeds (1193), the walk and the returned values (1235 to 1243).
\<close>

definition reverse_model :: "('t, 'v::plus) reverse_args \<Rightarrow> error + ('t, 'v) reversed" where
  "reverse_model args =
     (case clip_all_reversed_tensors args of
        ClipTrue \<Rightarrow> Inl NotImplementedError
      | _ \<Rightarrow>
        (case (case execution_trace args of
                 None \<Rightarrow> trace_model_execution (model args)
               | Some trace \<Rightarrow> trace) of
           (layers, execution_list, outputs) \<Rightarrow>
             (let wo = length execution_list
                       - length (filter (\<lambda>(l, Xs, Ys). is_input_layer l) execution_list);
                  initialized_reverse_mappings =
                    initialize_reverse_mappings (model args) (reverse_mappings args)
                      (default_reverse_mapping args) layers Map.empty
              in
                then_do (case project_bottleneck_tensors args of
                           ProjectFalse \<Rightarrow> Inr []
                         | ProjectRange project \<Rightarrow>
                             get_bottleneck_tensors (model_inputs (model args)) outputs
                               execution_list)
                  (\<lambda>bottleneck_tensors.
                then_do (add_reversed_tensors (stop_mapping_at_tensors args) (- 1) outputs
                           (map (head_mapping args) outputs) Map.empty)
                  (\<lambda>seeded.
                then_do (reverse_walk args bottleneck_tensors initialized_reverse_mappings wo 0
                           (rev execution_list) seeded)
                  (\<lambda>walked.
                then_do (get_reversed_tensors (clip_all_reversed_tensors args)
                           (project_bottleneck_tensors args) bottleneck_tensors
                           (filter (\<lambda>t. t \<notin> set (stop_mapping_at_tensors args))
                              (model_inputs (model args)))
                           walked)
                  (\<lambda>(reversed_input_tensors, reversed_tensors).
                     Inr (if return_all_reversed_tensors args
                          then ReversedAll reversed_input_tensors reversed_tensors
                          else ReversedInputs reversed_input_tensors))))))))"

section \<open>Vocabulary of the proofs\<close>

text \<open>The set of tensors a dictionary of forward connections leads to from a tensor.\<close>

definition connected :: "('t \<rightharpoonup> 't list) \<Rightarrow> 't \<Rightarrow> 't set" where
  "connected fc t = (case fc t of None \<Rightarrow> {} | Some cs \<Rightarrow> set cs)"

text \<open>
  A dictionary of forward connections mirrors an execution list when it has a key for
  exactly the consumed tensors and leads from each to its successors.
\<close>

definition mirrors :: "('t \<rightharpoonup> 't list) \<Rightarrow> 't node list \<Rightarrow> bool" where
  "mirrors fc el \<longleftrightarrow>
     (\<forall>t. (fc t = None \<longleftrightarrow> consumers el t = []) \<and> connected fc t = successors el t)"

text \<open>No tensor of the stop list is a key of the map of reversed tensors.\<close>

definition untracked :: "'t list \<Rightarrow> ('t, 'v) reversed_tensors \<Rightarrow> bool" where
  "untracked stop rts \<longleftrightarrow> (\<forall>t \<in> set stop. rts t = None)"

text \<open>
  An entry can be resolved when it is finalized, holds a single value or holds two; a
  map is resolvable when all its entries are.
\<close>

definition resolvable_entry :: "'v reverse_tensor \<Rightarrow> bool" where
  "resolvable_entry e \<longleftrightarrow>
     final_tensor e \<noteq> None \<or> tensor e \<noteq> None \<or> (\<exists>a b. tensors e = Some [a, b])"

definition resolvable :: "('t, 'v) reversed_tensors \<Rightarrow> bool" where
  "resolvable rts \<longleftrightarrow> (\<forall>t e. rts t = Some e \<longrightarrow> resolvable_entry e)"

section \<open>Example models and rules\<close>

text \<open>
  Rules over integer backward values: \<open>pass_back\<close> hands every input the sum of the
  reversed outputs, \<open>report_nid\<close> hands every input the node id the rule was called with.
\<close>

definition pass_back :: "(nat, int) reverse_mapping" where
  "pass_back Xs Ys reversed_Ys s = map (\<lambda>x. sum_list reversed_Ys) Xs"

definition report_nid :: "(nat, int) reverse_mapping" where
  "report_nid Xs Ys reversed_Ys s = map (\<lambda>x. rs_nid s) Xs"

definition every_layer ::
  "(nat, int) reverse_mapping \<Rightarrow> layer \<Rightarrow> (nat, int) meta_mapping option" where
  "every_layer f l = Some (MappingFunction f)"

definition all_but :: "layer \<Rightarrow> layer \<Rightarrow> (nat, int) meta_mapping option" where
  "all_but missing l = (if l = missing then None else Some (MappingFunction pass_back))"

definition seed_five :: "nat \<Rightarrow> int" where
  "seed_five t = 5"

text \<open>A chain: input tensor 0, layer 1 produces tensor 1 from it, layer 2 tensor 2 from 1.\<close>

definition chain_model :: "nat model" where
  "chain_model =
     \<lparr>model_inputs = [0], model_outputs = [2],
      model_layers = [Layer 0 InputLayer, Layer 1 Primitive, Layer 2 Primitive],
      model_nodes = [(Layer 0 InputLayer, [0], [0]), (Layer 1 Primitive, [0], [1]),
                     (Layer 2 Primitive, [1], [2])]\<rparr>"

definition chain_args :: "(nat, int) reverse_args" where
  "chain_args =
     \<lparr>model = chain_model, reverse_mappings = every_layer pass_back,
      default_reverse_mapping = None, head_mapping = seed_five, stop_mapping_at_tensors = [],
      return_all_reversed_tensors = False, clip_all_reversed_tensors = ClipFalse,
      project_bottleneck_tensors = ProjectFalse, execution_trace = None\<rparr>"

text \<open>
  Two inputs, the second joining late: layers 1 and 2 map input 0 to tensor 1 and on to
  tensor 2, layer 4 merges tensor 2 with input 3 into tensor 4, layer 5 maps it to the
  output 5. The second input layer is shallower than layer 1, so the listing by depth
  places it after layer 1.
\<close>

definition late_input_model :: "nat model" where
  "late_input_model =
     \<lparr>model_inputs = [0, 3], model_outputs = [5],
      model_layers = [Layer 0 InputLayer, Layer 1 Primitive, Layer 2 Primitive,
                      Layer 3 InputLayer, Layer 4 Primitive, Layer 5 Primitive],
      model_nodes = [(Layer 0 InputLayer, [0], [0]), (Layer 1 Primitive, [0], [1]),
                     (Layer 2 Primitive, [1], [2]), (Layer 3 InputLayer, [3], [3]),
                     (Layer 4 Primitive, [2, 3], [4]), (Layer 5 Primitive, [4], [5])]\<rparr>"

definition late_input_args :: "(nat, int) reverse_args" where
  "late_input_args =
     chain_args\<lparr>model := late_input_model, reverse_mappings := every_layer report_nid\<rparr>"

definition stopped_input_args :: "(nat, int) reverse_args" where
  "stopped_input_args =
     chain_args\<lparr>model := late_input_model, stop_mapping_at_tensors := [3],
                return_all_reversed_tensors := True\<rparr>"

text \<open>Two records that both list tensor 1 as their output.\<close>

definition duplicate_producer_model :: "nat model" where
  "duplicate_producer_model =
     \<lparr>model_inputs = [0], model_outputs = [1],
      model_layers = [Layer 0 InputLayer, Layer 1 Primitive, Layer 2 Primitive],
      model_nodes = [(Layer 0 InputLayer, [0], [0]), (Layer 1 Primitive, [0], [1]),
                     (Layer 2 Primitive, [0], [1])]\<rparr>"

text \<open>
  A fan-out of three: the layers 1, 2 and 3 each consume the input tensor 0 and produce
  the tensors 1, 2 and 3, which layer 4 merges into the output 4.
\<close>

definition fan_out_model :: "nat model" where
  "fan_out_model =
     \<lparr>model_inputs = [0], model_outputs = [4],
      model_layers = [Layer 0 InputLayer, Layer 1 Primitive, Layer 2 Primitive,
                      Layer 3 Primitive, Layer 4 Primitive],
      model_nodes = [(Layer 0 InputLayer, [0], [0]), (Layer 1 Primitive, [0], [1]),
                     (Layer 2 Primitive, [0], [2]), (Layer 3 Primitive, [0], [3]),
                     (Layer 4 Primitive, [1, 2, 3], [4])]\<rparr>"

definition fan_out_args :: "(nat, int) reverse_args" where
  "fan_out_args = chain_args\<lparr>model := fan_out_model\<rparr>"

text \<open>
  A caller-supplied trace with a backward edge: layer 1 consumes the output tensor 2 and
  produces the input tensor 0, although it is listed before layer 2, which maps 0 to 2.
\<close>

definition backward_edge_args :: "(nat, int) reverse_args" where
  "backward_edge_args =
     chain_args\<lparr>return_all_reversed_tensors := True,
       execution_trace := Some ([Layer 1 Primitive, Layer 2 Primitive],
         [(Layer 1 Primitive, [2], [0]), (Layer 2 Primitive, [0], [2])], [2])\<rparr>"

lemmas example_defs = backward_edge_args_def fan_out_args_def fan_out_model_def chain_args_def chain_model_def late_input_args_def late_input_model_def
  stopped_input_args_def duplicate_producer_model_def every_layer_def all_but_def
  seed_five_def pass_back_def report_nid_def

lemmas run_defs = reverse_model_def trace_model_execution_def prune_executed_nodes_def
  is_input_layer_def is_network_def add_reversed_tensors_def add_reversed_tensor_def
  get_reversed_tensor_def project_and_clip_def walk_nid_def initialize_reverse_mapping_def
  id_execution_trace_def trace_lookups_def Let_def

section \<open>Exceptions\<close>

lemma then_do_Inl [simp]: "then_do (Inl e) f = Inl e"
  by (simp add: then_do_def)

lemma then_do_Inr [simp]: "then_do (Inr x) f = f x"
  by (simp add: then_do_def)

lemma then_do_eq_Inr: "then_do m f = Inr y \<longleftrightarrow> (\<exists>x. m = Inr x \<and> f x = Inr y)"
  by (cases m) simp_all

section \<open>Properties of the pruning pass\<close>

lemma prune_loop_append:
  "prune_loop (as @ bs) st = prune_loop bs (prune_loop as st)"
proof (induction as arbitrary: st)
  case Nil
  show ?case by (cases st) simp
next
  case (Cons a as)
  obtain l Xs Ys where a: "a = (l, Xs, Ys)" by (cases a) auto
  obtain u t where st: "st = (u, t)" by (cases st) auto
  show ?case using Cons.IH by (simp add: a st)
qed

lemma prune_loop_rev:
  "set (fst (prune_loop (rev ns) (outputs, []))) = needed_after outputs ns
   \<and> rev (snd (prune_loop (rev ns) (outputs, []))) = kept_by_scan outputs ns"
proof (induction ns)
  case Nil
  show ?case by simp
next
  case (Cons n ns)
  obtain l Xs Ys where n: "n = (l, Xs, Ys)" by (cases n) auto
  obtain u t where st: "prune_loop (rev ns) (outputs, []) = (u, t)"
    by (cases "prune_loop (rev ns) (outputs, [])") auto
  from Cons.IH st have u: "set u = needed_after outputs ns"
    and t: "rev t = kept_by_scan outputs ns" by simp_all
  have step: "prune_loop (rev (n # ns)) (outputs, []) = prune_loop [n] (u, t)"
    by (simp add: prune_loop_append st)
  show ?case
  proof (cases "set Ys \<subseteq> needed_after outputs ns")
    case True
    then have "prune_loop [n] (u, t) = (u @ Xs, t @ [n])"
      using u by (auto simp: n list_all_iff)
    with step True u t show ?thesis by (simp add: n)
  next
    case False
    then have "prune_loop [n] (u, t) = (u, t)"
      using u by (auto simp: n list_all_iff)
    with step False u t show ?thesis by (simp add: n)
  qed
qed

lemma kept_by_scan_subseq: "subseq (kept_by_scan outputs ns) ns"
  by (induction ns) auto

text \<open>
  Claim C3. The pruning pass of the tracer returns exactly the records that one reverse
  scan selects: the scan starts with the declared outputs needed, keeps a record if and
  only if all its output tensors are needed when it is visited, marks the inputs of a
  kept record needed, and drops every other record; the kept records stay in their
  forward order.
\<close>

theorem prune_executed_nodes_is_reverse_scan:
  "prune_executed_nodes outputs ns = kept_by_scan outputs ns
   \<and> subseq (prune_executed_nodes outputs ns) ns"
  using prune_loop_rev [of ns outputs] kept_by_scan_subseq [of outputs ns]
  by (simp add: prune_executed_nodes_def)

theorem prune_executed_nodes_is_reverse_scan_witness:
  "prune_executed_nodes [3::nat]
     [(Layer 0 InputLayer, [0], [0]), (Layer 1 Primitive, [0], [1]),
      (Layer 2 Primitive, [0], [2]), (Layer 3 Primitive, [1], [3])]
   = [(Layer 0 InputLayer, [0], [0]), (Layer 1 Primitive, [0], [1]),
      (Layer 3 Primitive, [1], [3])]"
  using prune_executed_nodes_is_reverse_scan [of "[3::nat]"
     "[(Layer 0 InputLayer, [0], [0]), (Layer 1 Primitive, [0], [1]),
       (Layer 2 Primitive, [0], [2]), (Layer 3 Primitive, [1], [3])]"]
  by simp

section \<open>Properties of the bottleneck analysis\<close>

lemma connect_None: "connect Xs Ys fc t = None \<longleftrightarrow> fc t = None \<and> t \<notin> set Xs"
  by (induction Xs arbitrary: fc) (auto split: option.splits)

lemma connect_connected:
  "connected (connect Xs Ys fc) t = connected fc t \<union> (if t \<in> set Xs then set Ys else {})"
  by (induction Xs arbitrary: fc) (auto simp: connected_def split: option.splits)

lemma consumers_Cons:
  "consumers ((l, Xs, Ys) # el) t =
     (if \<not> is_input_layer l \<and> t \<in> set Xs then (l, Xs, Ys) # consumers el t else consumers el t)"
  by (simp add: consumers_def)

lemma build_forward_connections_None:
  "build_forward_connections el fc t = None \<longleftrightarrow> fc t = None \<and> consumers el t = []"
proof (induction el arbitrary: fc)
  case Nil
  show ?case by (simp add: consumers_def)
next
  case (Cons n el)
  obtain l Xs Ys where n: "n = (l, Xs, Ys)" by (cases n) auto
  show ?case using Cons.IH by (auto simp: n consumers_Cons connect_None)
qed

lemma build_forward_connections_connected:
  "connected (build_forward_connections el fc) t = connected fc t \<union> successors el t"
proof (induction el arbitrary: fc)
  case Nil
  show ?case by (simp add: successors_def consumers_def)
next
  case (Cons n el)
  obtain l Xs Ys where n: "n = (l, Xs, Ys)" by (cases n) auto
  show ?case using Cons.IH
    by (auto simp: n successors_def consumers_Cons connect_connected)
qed

lemma set_open_all: "set (open_all cs d) = set d \<union> set cs"
  by (induction cs arbitrary: d) auto

lemma open_inputs_ok:
  "list_all (\<lambda>X. fc X \<noteq> None) ins \<Longrightarrow>
   \<exists>d'. open_inputs fc ins d = Inr d' \<and> set d' = set d \<union> (\<Union>X \<in> set ins. connected fc X)"
proof (induction ins arbitrary: d)
  case Nil
  show ?case by simp
next
  case (Cons X ins)
  from Cons.prems obtain cs where cs: "fc X = Some cs" by auto
  from Cons.prems have "list_all (\<lambda>X. fc X \<noteq> None) ins" by simp
  from Cons.IH [OF this, of "open_all cs d"] show ?case
    by (auto simp: cs set_open_all connected_def)
qed

lemma open_inputs_fails:
  "\<not> list_all (\<lambda>X. fc X \<noteq> None) ins \<Longrightarrow> open_inputs fc ins d = Inl KeyError"
  by (induction ins arbitrary: d) (auto split: option.splits)

lemma close_outputs_ok:
  "distinct Ys \<Longrightarrow> set Ys \<subseteq> set d \<Longrightarrow>
   \<exists>d'. close_outputs Ys d = Inr d' \<and> set d' = set d - set Ys"
proof (induction Ys arbitrary: d)
  case Nil
  show ?case by simp
next
  case (Cons Y Ys)
  from Cons.prems have "distinct Ys" and "set Ys \<subseteq> set (removeAll Y d)" by auto
  from Cons.IH [OF this] Cons.prems show ?case by auto
qed

lemma close_outputs_fails:
  "\<not> (distinct Ys \<and> set Ys \<subseteq> set d) \<Longrightarrow> close_outputs Ys d = Inl AssertionError"
proof (induction Ys arbitrary: d)
  case Nil
  then show ?case by simp
next
  case (Cons Y Ys)
  show ?case
  proof (cases "Y \<in> set d")
    case False
    then show ?thesis by simp
  next
    case True
    with Cons.prems have "\<not> (distinct Ys \<and> set Ys \<subseteq> set (removeAll Y d))" by auto
    from Cons.IH [OF this] True show ?thesis by simp
  qed
qed

lemma open_outputs_ok:
  "list_all (\<lambda>Y. fc Y \<noteq> None) (filter (\<lambda>y. y \<notin> set outs) Ys) \<Longrightarrow>
   \<exists>d'. open_outputs fc outs Ys d = Inr d'
      \<and> set d' = set d \<union> (\<Union>Y \<in> set (filter (\<lambda>y. y \<notin> set outs) Ys). connected fc Y)"
proof (induction Ys arbitrary: d)
  case Nil
  show ?case by simp
next
  case (Cons Y Ys)
  show ?case
  proof (cases "Y \<in> set outs")
    case True
    with Cons.prems have "list_all (\<lambda>Y. fc Y \<noteq> None) (filter (\<lambda>y. y \<notin> set outs) Ys)" by simp
    from Cons.IH [OF this, of d] True show ?thesis by simp
  next
    case False
    with Cons.prems obtain cs where cs: "fc Y = Some cs" by auto
    from False Cons.prems have "list_all (\<lambda>Y. fc Y \<noteq> None) (filter (\<lambda>y. y \<notin> set outs) Ys)" by simp
    from Cons.IH [OF this, of "open_all cs d"] False show ?thesis
      by (auto simp: cs set_open_all connected_def)
  qed
qed

lemma open_outputs_fails:
  "\<not> list_all (\<lambda>Y. fc Y \<noteq> None) (filter (\<lambda>y. y \<notin> set outs) Ys) \<Longrightarrow>
   open_outputs fc outs Ys d = Inl KeyError"
  by (induction Ys arbitrary: d) (auto split: option.splits)

lemma connected_empty: "connected Map.empty t = {}"
  by (simp add: connected_def)

lemma mirrors_build: "mirrors (build_forward_connections el Map.empty) el"
  unfolding mirrors_def
  by (simp add: build_forward_connections_None build_forward_connections_connected
      connected_empty)

lemma mirrors_expandable:
  "mirrors fc el \<Longrightarrow> list_all (\<lambda>X. fc X \<noteq> None) ts \<longleftrightarrow> expandable el ts"
  by (simp add: mirrors_def expandable_def list_all_iff)

lemma mirrors_expand:
  "mirrors fc el \<Longrightarrow> (\<Union>X \<in> set ts. connected fc X) = expand el ts"
  by (simp add: mirrors_def expand_def)

lemma bottleneck_walk_ok:
  "mirrors fc el \<Longrightarrow> frontier_walk el outs ns (set d) = Some r \<Longrightarrow>
   bottleneck_walk fc outs ns d ret = Inr (ret @ r)"
proof (induction ns arbitrary: d ret r)
  case Nil
  then show ?case by simp
next
  case (Cons n ns)
  obtain l Xs Ys where n: "n = (l, Xs, Ys)" by (cases n) auto
  let ?E = "filter (\<lambda>y. y \<notin> set outs) Ys"
  show ?case
  proof (cases "is_input_layer l")
    case True
    with Cons show ?thesis by (simp add: n)
  next
    case False
    from Cons.prems(2) False have ok1: "distinct Ys" "set Ys \<subseteq> set d"
      and ok2: "expandable el ?E"
      by (auto simp: n split: if_splits)
    from close_outputs_ok [OF ok1] obtain d1 where
      d1: "close_outputs Ys d = Inr d1" "set d1 = set d - set Ys" by blast
    from ok2 have "list_all (\<lambda>Y. fc Y \<noteq> None) ?E"
      using mirrors_expandable [OF Cons.prems(1)] by blast
    from open_outputs_ok [OF this, of d1] obtain d2 where
      d2: "open_outputs fc outs Ys d1 = Inr d2"
        "set d2 = set d1 \<union> (\<Union>Y \<in> set ?E. connected fc Y)" by blast
    have d2': "set d2 = (set d - set Ys) \<union> expand el ?E"
      using d2(2) d1(2) mirrors_expand [OF Cons.prems(1), of ?E] by simp
    from Cons.prems(2) False ok1 ok2 obtain r' where
      r': "frontier_walk el outs ns (set d2) = Some r'"
      and r: "r = (if set d - set Ys = {} then (l, (Xs, Ys)) # r' else r')"
      by (auto simp: n d2' split: option.splits)
    have "d1 = [] \<longleftrightarrow> set d1 = {}" by simp
    then have emp: "length d1 = 0 \<longleftrightarrow> set d - set Ys = {}" using d1(2) by simp
    from Cons.IH [OF Cons.prems(1) r'] show ?thesis
      using False d1(1) d2(1) r emp by (simp add: n)
  qed
qed

lemma bottleneck_walk_fails:
  "mirrors fc el \<Longrightarrow> frontier_walk el outs ns (set d) = None \<Longrightarrow>
   \<exists>e. bottleneck_walk fc outs ns d ret = Inl e"
proof (induction ns arbitrary: d ret)
  case Nil
  then show ?case by simp
next
  case (Cons n ns)
  obtain l Xs Ys where n: "n = (l, Xs, Ys)" by (cases n) auto
  let ?E = "filter (\<lambda>y. y \<notin> set outs) Ys"
  show ?case
  proof (cases "is_input_layer l")
    case True
    with Cons show ?thesis by (simp add: n)
  next
    case input: False
    show ?thesis
    proof (cases "distinct Ys \<and> set Ys \<subseteq> set d")
      case False
      from close_outputs_fails [OF this] input show ?thesis by (simp add: n)
    next
      case True
      then have ok1: "distinct Ys" "set Ys \<subseteq> set d" by simp_all
      from close_outputs_ok [OF ok1] obtain d1 where
        d1: "close_outputs Ys d = Inr d1" "set d1 = set d - set Ys" by blast
      show ?thesis
      proof (cases "expandable el ?E")
        case False
        then have "\<not> list_all (\<lambda>Y. fc Y \<noteq> None) ?E"
          using mirrors_expandable [OF Cons.prems(1)] by blast
        from open_outputs_fails [OF this] input d1(1) show ?thesis by (simp add: n)
      next
        case ok2: True
        then have "list_all (\<lambda>Y. fc Y \<noteq> None) ?E"
          using mirrors_expandable [OF Cons.prems(1)] by blast
        from open_outputs_ok [OF this, of d1] obtain d2 where
          d2: "open_outputs fc outs Ys d1 = Inr d2"
            "set d2 = set d1 \<union> (\<Union>Y \<in> set ?E. connected fc Y)" by blast
        have d2': "set d2 = (set d - set Ys) \<union> expand el ?E"
          using d2(2) d1(2) mirrors_expand [OF Cons.prems(1), of ?E] by simp
        from Cons.prems(2) input True ok2 have "frontier_walk el outs ns (set d2) = None"
          by (auto simp: n d2' split: option.splits if_splits)
        from Cons.IH [OF Cons.prems(1) this] show ?thesis
          using input d1(1) d2(1) by (simp add: n)
      qed
    qed
  qed
qed

text \<open>
  Claim C7. \<^verbatim>\<open>get_bottleneck_nodes\<close> returns, in forward order, exactly the non-input
  records at which the open frontier is empty right after the record's output tensors
  are removed from it; the frontier starts as the expansion of the declared inputs
  through the forward adjacency and is expanded, after each record, through each of its
  output tensors that is not a declared output. The function returns if and only if the
  frontier walk is defined, and then with the same list.
\<close>

theorem get_bottleneck_nodes_frontier:
  "get_bottleneck_nodes inputs outputs execution_list = Inr ret
   \<longleftrightarrow> frontier_bottlenecks inputs outputs execution_list = Some ret"
proof -
  let ?fc = "build_forward_connections execution_list Map.empty"
  have m: "mirrors ?fc execution_list" by (rule mirrors_build)
  show ?thesis
  proof (cases "expandable execution_list inputs")
    case False
    then have "\<not> list_all (\<lambda>X. ?fc X \<noteq> None) inputs"
      using mirrors_expandable [OF m] by blast
    from open_inputs_fails [OF this] False show ?thesis
      by (simp add: get_bottleneck_nodes_def frontier_bottlenecks_def)
  next
    case True
    then have "list_all (\<lambda>X. ?fc X \<noteq> None) inputs"
      using mirrors_expandable [OF m] by blast
    from open_inputs_ok [OF this, of "[]"] obtain d where
      d: "open_inputs ?fc inputs [] = Inr d" "set d = (\<Union>X \<in> set inputs. connected ?fc X)"
      by auto
    have d': "set d = expand execution_list inputs"
      using d(2) mirrors_expand [OF m, of inputs] by simp
    show ?thesis
    proof (cases "frontier_walk execution_list outputs execution_list (set d)")
      case None
      from bottleneck_walk_fails [OF m None, of "[]"] None True d(1) show ?thesis
        by (auto simp: get_bottleneck_nodes_def frontier_bottlenecks_def d')
    next
      case (Some r)
      from bottleneck_walk_ok [OF m Some, of "[]"] Some True d(1) show ?thesis
        by (auto simp: get_bottleneck_nodes_def frontier_bottlenecks_def d')
    qed
  qed
qed

theorem get_bottleneck_nodes_frontier_witness:
  "get_bottleneck_nodes [0::nat] [2] (model_nodes chain_model)
   = Inr [(Layer 1 Primitive, ([0], [1])), (Layer 2 Primitive, ([1], [2]))]"
proof -
  have "frontier_bottlenecks [0::nat] [2] (model_nodes chain_model)
        = Some [(Layer 1 Primitive, ([0], [1])), (Layer 2 Primitive, ([1], [2]))]"
    by (simp add: frontier_bottlenecks_def expandable_def expand_def successors_def
        consumers_def chain_model_def is_input_layer_def)
  then show ?thesis
    using get_bottleneck_nodes_frontier [of "[0::nat]" "[2]" "model_nodes chain_model"
        "[(Layer 1 Primitive, ([0], [1])), (Layer 2 Primitive, ([1], [2]))]"]
    by simp
qed

section \<open>Properties of the per-tensor state\<close>

lemma project_and_clip_comm:
  fixes v1 v2 :: "'v::ab_semigroup_add"
  shows "project_and_clip c p bts X (v2 + v1) = project_and_clip c p bts X (v1 + v2)"
  by (simp add: add.commute)

lemma first_contribution_is_pending:
  assumes "X \<notin> set stop" and "rts X = None"
  shows "add_reversed_tensor stop n i X v rts =
    Inr (rts(X \<mapsto> \<lparr>id_key = (n, i), tensor = Some v, tensors = None, final_tensor = None\<rparr>))"
  using assms by (simp add: add_reversed_tensor_def)

lemma second_contribution_aggregates:
  assumes "X \<notin> set stop" and "rts X = Some tmp" and "tensor tmp = Some v" and "tensors tmp = None"
  shows "add_reversed_tensor stop n i X w rts =
    Inr (rts(X \<mapsto> tmp\<lparr>tensors := Some [v, w], tensor := None\<rparr>))"
  using assms by (simp add: add_reversed_tensor_def)

lemma third_contribution_raises:
  assumes "X \<notin> set stop" and "rts X = Some tmp" and "tensor tmp = None"
  shows "add_reversed_tensor stop n i X w rts =
    Inl (Exception ''Error during reverse tensor aggeregation.'')"
  using assms by (simp add: add_reversed_tensor_def)

lemma aggregated_pair_resolves:
  fixes v w :: "'v::plus"
  assumes "rts X = Some tmp" and "final_tensor tmp = None" and "tensor tmp = None"
    and "tensors tmp = Some [v, w]"
  shows "get_reversed_tensor c p bts X rts =
    Inr (project_and_clip c p bts X (v + w),
         rts(X \<mapsto> tmp\<lparr>final_tensor := Some (project_and_clip c p bts X (v + w))\<rparr>))"
  using assms by (simp add: get_reversed_tensor_def Let_def)

lemma two_contributions_then_resolve:
  fixes v w :: "'v::plus"
  assumes X: "X \<notin> set stop" and fresh: "rts X = None"
  shows "\<exists>rts1. add_reversed_tensor stop n1 i1 X v rts = Inr rts1 \<and>
     (\<forall>rts1'. rts1' X = rts1 X \<longrightarrow>
        (\<exists>rts2. add_reversed_tensor stop n2 i2 X w rts1' = Inr rts2 \<and>
           (\<forall>rts2'. rts2' X = rts2 X \<longrightarrow>
              map_sum id fst (get_reversed_tensor c p bts X rts2')
                = Inr (project_and_clip c p bts X (v + w)))))"
proof -
  let ?e1 = "\<lparr>id_key = (n1, i1), tensor = Some v, tensors = None, final_tensor = None\<rparr>"
  let ?e2 = "?e1\<lparr>tensors := Some [v, w], tensor := None\<rparr>"
  have first: "add_reversed_tensor stop n1 i1 X v rts = Inr (rts(X \<mapsto> ?e1))"
    using X fresh by (simp add: first_contribution_is_pending)
  have rest: "\<exists>rts2. add_reversed_tensor stop n2 i2 X w rts1' = Inr rts2 \<and>
           (\<forall>rts2'. rts2' X = rts2 X \<longrightarrow>
              map_sum id fst (get_reversed_tensor c p bts X rts2')
                = Inr (project_and_clip c p bts X (v + w)))"
    if h: "rts1' X = (rts(X \<mapsto> ?e1)) X" for rts1'
  proof -
    from h have e: "rts1' X = Some ?e1" by simp
    have second: "add_reversed_tensor stop n2 i2 X w rts1' = Inr (rts1'(X \<mapsto> ?e2))"
      using X e by (simp add: second_contribution_aggregates)
    have "map_sum id fst (get_reversed_tensor c p bts X rts2')
                = Inr (project_and_clip c p bts X (v + w))"
      if h2: "rts2' X = (rts1'(X \<mapsto> ?e2)) X" for rts2'
    proof -
      from h2 have "rts2' X = Some ?e2" by simp
      then show ?thesis by (simp add: aggregated_pair_resolves [where tmp = ?e2])
    qed
    with second show ?thesis by blast
  qed
  from first rest show ?thesis by blast
qed

text \<open>
  Up to two contributions the aggregation works: a tensor outside the stop list that has
  no entry yet and then receives two contributions, with any activity on other tensors
  in between, is finalized to the sum of the two, passed through the bottleneck
  projection and the clipping where these are configured; the value is the same
  whichever of the two arrives first.
\<close>

lemma two_contributions_are_summed:
  fixes v1 v2 :: "'v::ab_semigroup_add"
  assumes "X \<notin> set stop" and "rts X = None"
  shows "(\<exists>rts1. add_reversed_tensor stop n1 i1 X v1 rts = Inr rts1 \<and>
            (\<forall>rts1'. rts1' X = rts1 X \<longrightarrow>
               (\<exists>rts2. add_reversed_tensor stop n2 i2 X v2 rts1' = Inr rts2 \<and>
                  (\<forall>rts2'. rts2' X = rts2 X \<longrightarrow>
                     map_sum id fst (get_reversed_tensor c p bts X rts2')
                       = Inr (project_and_clip c p bts X (v1 + v2))))))
       \<and> (\<exists>rts1. add_reversed_tensor stop n2 i2 X v2 rts = Inr rts1 \<and>
            (\<forall>rts1'. rts1' X = rts1 X \<longrightarrow>
               (\<exists>rts2. add_reversed_tensor stop n1 i1 X v1 rts1' = Inr rts2 \<and>
                  (\<forall>rts2'. rts2' X = rts2 X \<longrightarrow>
                     map_sum id fst (get_reversed_tensor c p bts X rts2')
                       = Inr (project_and_clip c p bts X (v1 + v2))))))"
proof -
  have one: "\<exists>rts1. add_reversed_tensor stop n1 i1 X v1 rts = Inr rts1 \<and>
            (\<forall>rts1'. rts1' X = rts1 X \<longrightarrow>
               (\<exists>rts2. add_reversed_tensor stop n2 i2 X v2 rts1' = Inr rts2 \<and>
                  (\<forall>rts2'. rts2' X = rts2 X \<longrightarrow>
                     map_sum id fst (get_reversed_tensor c p bts X rts2')
                       = Inr (project_and_clip c p bts X (v1 + v2)))))"
    using assms by (rule two_contributions_then_resolve)
  have two: "\<exists>rts1. add_reversed_tensor stop n2 i2 X v2 rts = Inr rts1 \<and>
            (\<forall>rts1'. rts1' X = rts1 X \<longrightarrow>
               (\<exists>rts2. add_reversed_tensor stop n1 i1 X v1 rts1' = Inr rts2 \<and>
                  (\<forall>rts2'. rts2' X = rts2 X \<longrightarrow>
                     map_sum id fst (get_reversed_tensor c p bts X rts2')
                       = Inr (project_and_clip c p bts X (v2 + v1)))))"
    using assms by (rule two_contributions_then_resolve)
  from one two show ?thesis
    by (simp only: project_and_clip_comm [of c p bts X v1 v2])
qed

text \<open>
  Claim C1 fails on the code. In the model with a fan-out of three and the default
  configuration, the input tensor 0 is consumed by three records and so receives three
  contributions; the third is not added to the list of the first two but raises, and
  the run ends with that exception instead of the sum. The same is seen on the
  operations alone: after the contributions 1 and 3 the contribution 5 raises.
\<close>

theorem third_contribution_is_not_aggregated:
  "reverse_model fan_out_args
     = Inl (Exception ''Error during reverse tensor aggeregation.'')
   \<and> then_do (then_do (add_reversed_tensor [] 1 0 (0::nat) (1::int) Map.empty)
                 (add_reversed_tensor [] 2 0 0 3))
        (add_reversed_tensor [] 3 0 0 5)
     = Inl (Exception ''Error during reverse tensor aggeregation.'')"
  by (simp add: example_defs run_defs)

text \<open>
  Claim C2 fails on the code. A tensor is given the value 5 and read, which finalizes
  it; a further contribution 7 is then accepted without any error: the entry silently
  becomes the list of 5 and 7 while the finalized value stays 5. The same happens inside
  \<^verbatim>\<open>reverse_model\<close> on the trace with a backward edge, where the output tensor 2 is
  read by the walk and contributed to afterwards.
\<close>

theorem contribution_after_finalization_is_accepted:
  "map_sum id (\<lambda>rts. rts 0)
     (then_do (then_do (add_reversed_tensor [] 1 0 (0::nat) (5::int) Map.empty)
                 (get_reversed_tensor ClipFalse ProjectFalse [] 0))
        (\<lambda>(v, rts). add_reversed_tensor [] 0 0 0 7 rts))
   = Inr (Some \<lparr>id_key = (1, 0), tensor = None, tensors = Some [5, 7],
                final_tensor = Some 5\<rparr>)
   \<and> (case reverse_model backward_edge_args of
         Inr (ReversedAll ret all) \<Rightarrow> Some (ret, all 2)
       | _ \<Rightarrow> None)
     = Some ([5], Some \<lparr>id_key = (- 1, 0), tensor = None, tensors = Some [5, 5],
                         final_tensor = Some 5\<rparr>)"
  by (simp add: example_defs run_defs)

section \<open>Properties of the node identifiers and lookups\<close>

text \<open>
  Claim C4 fails on the code. In the two-input model whose second input layer is listed
  after layers 1 and 2, tracing numbers the layers 1, 2, 4 and 5 as 0, 1, 2 and 3, but
  the backward walk counts the input record too and calls the rule of layer 1 with the
  node id -1: the reversed value of input 0 below is the node id that the rule of its
  consumer, layer 1, was given, and that of input 3 the one given to layer 4.
\<close>

theorem walk_nid_differs_from_trace_nid:
  "map fst (id_execution_trace (fst (snd (trace_model_execution late_input_model))))
     = [None, Some 0, Some 1, None, Some 2, Some 3]
   \<and> fst (snd (trace_model_execution late_input_model)) ! 1 = (Layer 1 Primitive, [0], [1])
   \<and> reverse_model late_input_args = Inr (ReversedInputs [- 1, 2])"
  by (simp add: example_defs run_defs)

text \<open>
  Claim C5 fails on the code. Tensor 1 is the output of the records 0 and 1 of the
  pruned trace, and the lookups are built without the exception: the second producer
  overwrites the first.
\<close>

theorem duplicate_producer_not_detected:
  "prune_executed_nodes (model_outputs duplicate_producer_model)
     (model_nodes duplicate_producer_model) = model_nodes duplicate_producer_model
   \<and> map_sum id (\<lambda>(inputs_to_node, outputs_to_node). (inputs_to_node 0, outputs_to_node 1))
       (trace_lookups duplicate_producer_model False)
     = Inr (Some [0, 1], Some (Some 1))"
  by (simp add: example_defs run_defs)

text \<open>
  The exception is raised where every tensor has a single producer, once a record
  lists as its output a tensor that an earlier record consumed.
\<close>

lemma consumed_before_produced_raises:
  "build_lookups False
     (id_execution_trace [(Layer 1 Primitive, [1::nat], [2]), (Layer 2 Primitive, [0], [1])])
     Map.empty Map.empty
   = Inl (Exception ''Cannot be more than one creating node.'')"
  by (simp add: run_defs)

section \<open>Properties of the backward walk\<close>

lemma add_reversed_tensor_stopped:
  "X \<in> set stop \<Longrightarrow> add_reversed_tensor stop n i X v rts = Inr rts"
  by (simp add: add_reversed_tensor_def)

lemma add_reversed_tensor_untracked:
  "add_reversed_tensor stop n i X v rts = Inr rts' \<Longrightarrow> untracked stop rts \<Longrightarrow> untracked stop rts'"
  by (auto simp: add_reversed_tensor_def untracked_def split: if_splits option.splits)

lemma add_reversed_tensors_from_untracked:
  "add_reversed_tensors_from stop n i Xs vs rts = Inr rts' \<Longrightarrow> untracked stop rts
   \<Longrightarrow> untracked stop rts'"
proof (induction stop n i Xs vs rts rule: add_reversed_tensors_from.induct)
  case (1 stop n i X Xs v vs rts)
  from "1.prems"(1) obtain rts1 where
    a: "add_reversed_tensor stop n i X v rts = Inr rts1"
    and b: "add_reversed_tensors_from stop n (Suc i) Xs vs rts1 = Inr rts'"
    by (auto simp: then_do_eq_Inr)
  from add_reversed_tensor_untracked [OF a "1.prems"(2)] have "untracked stop rts1" .
  from "1.IH" [OF b this] show ?case .
qed simp_all

lemma get_reversed_tensor_None:
  "get_reversed_tensor c p bts t rts = Inr (v, rts') \<Longrightarrow> rts' x = None \<longleftrightarrow> rts x = None"
  by (auto simp: get_reversed_tensor_def then_do_eq_Inr Let_def split: option.splits if_splits)

lemma get_reversed_tensor_final:
  "get_reversed_tensor c p bts t rts = Inr (v, rts') \<Longrightarrow> Option.bind (rts' t) final_tensor = Some v"
  by (auto simp: get_reversed_tensor_def then_do_eq_Inr Let_def split: option.splits)

lemma get_reversed_tensor_keeps_final:
  "get_reversed_tensor c p bts t rts = Inr (v, rts') \<Longrightarrow> Option.bind (rts x) final_tensor = Some f
   \<Longrightarrow> Option.bind (rts' x) final_tensor = Some f"
  by (auto simp: get_reversed_tensor_def then_do_eq_Inr Let_def split: option.splits if_splits)

lemma get_reversed_tensors_None:
  "get_reversed_tensors c p bts ts rts = Inr (vs, rts') \<Longrightarrow> rts' x = None \<longleftrightarrow> rts x = None"
proof (induction ts arbitrary: rts vs)
  case Nil
  then show ?case by simp
next
  case (Cons t ts)
  from Cons.prems obtain v rts1 vs' where
    a: "get_reversed_tensor c p bts t rts = Inr (v, rts1)"
    and b: "get_reversed_tensors c p bts ts rts1 = Inr (vs', rts')"
    by (auto simp: then_do_eq_Inr)
  from Cons.IH [OF b] get_reversed_tensor_None [OF a] show ?case by simp
qed

lemma get_reversed_tensors_keeps_final:
  "get_reversed_tensors c p bts ts rts = Inr (vs, rts') \<Longrightarrow> Option.bind (rts x) final_tensor = Some f
   \<Longrightarrow> Option.bind (rts' x) final_tensor = Some f"
proof (induction ts arbitrary: rts vs)
  case Nil
  then show ?case by simp
next
  case (Cons t ts)
  from Cons.prems(1) obtain v rts1 vs' where
    a: "get_reversed_tensor c p bts t rts = Inr (v, rts1)"
    and b: "get_reversed_tensors c p bts ts rts1 = Inr (vs', rts')"
    by (auto simp: then_do_eq_Inr)
  from Cons.IH [OF b get_reversed_tensor_keeps_final [OF a Cons.prems(2)]] show ?case .
qed

lemma get_reversed_tensors_values:
  "get_reversed_tensors c p bts ts rts = Inr (vs, rts') \<Longrightarrow>
   map (\<lambda>t. Option.bind (rts' t) final_tensor) ts = map Some vs"
proof (induction ts arbitrary: rts vs)
  case Nil
  then show ?case by simp
next
  case (Cons t ts)
  from Cons.prems(1) obtain v rts1 vs' where
    a: "get_reversed_tensor c p bts t rts = Inr (v, rts1)"
    and b: "get_reversed_tensors c p bts ts rts1 = Inr (vs', rts')"
    and vs: "vs = v # vs'"
    by (auto simp: then_do_eq_Inr)
  from get_reversed_tensors_keeps_final [OF b get_reversed_tensor_final [OF a]]
  have "Option.bind (rts' t) final_tensor = Some v" .
  with Cons.IH [OF b] vs show ?case by simp
qed

lemma get_reversed_tensors_untracked:
  "get_reversed_tensors c p bts ts rts = Inr (vs, rts') \<Longrightarrow> untracked stop rts
   \<Longrightarrow> untracked stop rts'"
  by (simp add: untracked_def get_reversed_tensors_None)

lemma reverse_walk_invariant:
  assumes get: "\<And>ts rts vs rts'.
      get_reversed_tensors (clip_all_reversed_tensors args) (project_bottleneck_tensors args)
        bts ts rts = Inr (vs, rts') \<Longrightarrow> P rts \<Longrightarrow> P rts'"
    and add: "\<And>n Xs vs rts rts'.
      add_reversed_tensors (stop_mapping_at_tensors args) n Xs vs rts = Inr rts'
      \<Longrightarrow> P rts \<Longrightarrow> P rts'"
  shows "reverse_walk args bts irm wo k ns rts = Inr rts' \<Longrightarrow> P rts \<Longrightarrow> P rts'"
proof (induction ns arbitrary: k rts)
  case Nil
  then show ?case by simp
next
  case (Cons n ns)
  obtain l Xs Ys where n: "n = (l, Xs, Ys)" by (cases n) auto
  show ?case
  proof (cases "is_input_layer l \<or> \<not> list_all (\<lambda>ys. rts ys \<noteq> None) Ys")
    case True
    with Cons.prems(1) have "reverse_walk args bts irm wo (Suc k) ns rts = Inr rts'"
      by (auto simp: n split: if_splits)
    from Cons.IH [OF this Cons.prems(2)] show ?thesis .
  next
    case False
    with Cons.prems(1) obtain reversed_Ys rts1 where
      a: "get_reversed_tensors (clip_all_reversed_tensors args) (project_bottleneck_tensors args)
            bts Ys rts = Inr (reversed_Ys, rts1)"
      and rest: "(case irm l of
                None \<Rightarrow> Inl KeyError
              | Some None \<Rightarrow> Inl TypeError
              | Some (Some reverse_mapping) \<Rightarrow>
                  then_do (add_reversed_tensors (stop_mapping_at_tensors args) (walk_nid wo k) Xs
                             (reverse_mapping Xs Ys reversed_Ys
                                \<lparr>rs_nid = walk_nid wo k, rs_model = model args, rs_layer = l,
                                 rs_stop_mapping_at_tensors =
                                   filter (\<lambda>x. x \<in> set (stop_mapping_at_tensors args)) Xs\<rparr>)
                             rts1)
                    (reverse_walk args bts irm wo (Suc k) ns)) = Inr rts'"
      by (auto simp: n then_do_eq_Inr split: if_splits)
    from rest obtain f where f: "irm l = Some (Some f)"
      by (cases "irm l") (auto split: option.splits)
    from rest f obtain rts2 where
      b: "add_reversed_tensors (stop_mapping_at_tensors args) (walk_nid wo k) Xs
                (f Xs Ys reversed_Ys
                   \<lparr>rs_nid = walk_nid wo k, rs_model = model args, rs_layer = l,
                    rs_stop_mapping_at_tensors =
                      filter (\<lambda>x. x \<in> set (stop_mapping_at_tensors args)) Xs\<rparr>) rts1 = Inr rts2"
      and c: "reverse_walk args bts irm wo (Suc k) ns rts2 = Inr rts'"
      by (auto simp: then_do_eq_Inr)
    from get [OF a Cons.prems(2)] have "P rts1" .
    from add [OF b this] have "P rts2" .
    from Cons.IH [OF c this] show ?thesis .
  qed
qed

lemma reverse_walk_untracked:
  assumes "reverse_walk args bts irm wo k ns rts = Inr rts'"
    and "untracked (stop_mapping_at_tensors args) rts"
  shows "untracked (stop_mapping_at_tensors args) rts'"
proof (rule reverse_walk_invariant [where P = "untracked (stop_mapping_at_tensors args)",
      OF _ _ assms])
  show "untracked (stop_mapping_at_tensors args) b"
    if "get_reversed_tensors (clip_all_reversed_tensors args) (project_bottleneck_tensors args)
          bts ts a = Inr (vs, b)" and "untracked (stop_mapping_at_tensors args) a"
    for ts a vs b
    using that by (rule get_reversed_tensors_untracked)
  show "untracked (stop_mapping_at_tensors args) b"
    if "add_reversed_tensors (stop_mapping_at_tensors args) n Xs vs a = Inr b"
      and "untracked (stop_mapping_at_tensors args) a"
    for n Xs vs a b
    using that unfolding add_reversed_tensors_def by (rule add_reversed_tensors_from_untracked)
qed

lemma reverse_model_returns:
  assumes "reverse_model args = Inr res"
  shows "\<exists>ret rts. untracked (stop_mapping_at_tensors args) rts
     \<and> map (\<lambda>t. Option.bind (rts t) final_tensor)
         (filter (\<lambda>t. t \<notin> set (stop_mapping_at_tensors args)) (model_inputs (model args)))
       = map Some ret
     \<and> res = (if return_all_reversed_tensors args then ReversedAll ret rts else ReversedInputs ret)"
proof -
  obtain layers execution_list outputs where
    tr: "(case execution_trace args of None \<Rightarrow> trace_model_execution (model args)
           | Some trace \<Rightarrow> trace) = (layers, execution_list, outputs)"
    by (cases "case execution_trace args of None \<Rightarrow> trace_model_execution (model args)
           | Some trace \<Rightarrow> trace") auto
  let ?stop = "stop_mapping_at_tensors args"
  from assms obtain bts seeded walked ret rts irm wo where
    seed: "add_reversed_tensors ?stop (- 1) outputs (map (head_mapping args) outputs) Map.empty
             = Inr seeded"
    and walk: "reverse_walk args bts irm wo 0 (rev execution_list) seeded = Inr walked"
    and get: "get_reversed_tensors (clip_all_reversed_tensors args)
                (project_bottleneck_tensors args) bts
                (filter (\<lambda>t. t \<notin> set ?stop) (model_inputs (model args))) walked = Inr (ret, rts)"
    and res: "res = (if return_all_reversed_tensors args then ReversedAll ret rts
                     else ReversedInputs ret)"
    by (auto simp: reverse_model_def tr Let_def then_do_eq_Inr split: clip_arg.splits)
  have "untracked ?stop Map.empty" by (simp add: untracked_def)
  with seed have "untracked ?stop seeded"
    unfolding add_reversed_tensors_def by (rule add_reversed_tensors_from_untracked)
  from reverse_walk_untracked [OF walk this] have "untracked ?stop walked" .
  from get_reversed_tensors_untracked [OF get this] have u: "untracked ?stop rts" .
  from get_reversed_tensors_values [OF get] u res show ?thesis by blast
qed

text \<open>
  Claim C8. For a tensor of the stop list: a contribution to it leaves the map of
  reversed tensors as it is and raises nothing; it is not a key of the map returned
  with full detail; and the returned list holds, in order, the finalized values of
  exactly the declared inputs that are not in the stop list.
\<close>

theorem stop_set_exclusion:
  assumes "t \<in> set (stop_mapping_at_tensors args)"
  shows "add_reversed_tensor (stop_mapping_at_tensors args) n i t v rts = Inr rts
     \<and> (reverse_model args = Inr (ReversedAll ret all) \<longrightarrow>
          all t = None
          \<and> map (\<lambda>x. Option.bind (all x) final_tensor)
              (filter (\<lambda>x. x \<notin> set (stop_mapping_at_tensors args))
                 (model_inputs (model args)))
            = map Some ret)
     \<and> (reverse_model args = Inr (ReversedInputs ret) \<longrightarrow>
          length ret = length (filter (\<lambda>x. x \<notin> set (stop_mapping_at_tensors args))
                                 (model_inputs (model args))))"
proof (intro conjI impI)
  show "add_reversed_tensor (stop_mapping_at_tensors args) n i t v rts = Inr rts"
    using assms by (rule add_reversed_tensor_stopped)
next
  assume r: "reverse_model args = Inr (ReversedAll ret all)"
  from reverse_model_returns [OF r] obtain ret' rts' where
    u: "untracked (stop_mapping_at_tensors args) rts'"
    and m: "map (\<lambda>t. Option.bind (rts' t) final_tensor)
              (filter (\<lambda>t. t \<notin> set (stop_mapping_at_tensors args)) (model_inputs (model args)))
            = map Some ret'"
    and e: "ReversedAll ret all = (if return_all_reversed_tensors args
                                   then ReversedAll ret' rts' else ReversedInputs ret')"
    by blast
  from e have eq: "ret' = ret" "rts' = all" by (auto split: if_splits)
  from u assms eq show "all t = None" by (simp add: untracked_def)
  from m eq show "map (\<lambda>x. Option.bind (all x) final_tensor)
              (filter (\<lambda>x. x \<notin> set (stop_mapping_at_tensors args))
                 (model_inputs (model args)))
            = map Some ret" by simp
next
  assume r: "reverse_model args = Inr (ReversedInputs ret)"
  from reverse_model_returns [OF r] obtain ret' rts' where
    m: "map (\<lambda>t. Option.bind (rts' t) final_tensor)
              (filter (\<lambda>t. t \<notin> set (stop_mapping_at_tensors args)) (model_inputs (model args)))
            = map Some ret'"
    and e: "ReversedInputs ret = (if return_all_reversed_tensors args
                                  then ReversedAll ret' rts' else ReversedInputs ret')"
    by blast
  from e have "ret' = ret" by (auto split: if_splits)
  with m have "length (filter (\<lambda>t. t \<notin> set (stop_mapping_at_tensors args))
                 (model_inputs (model args))) = length (map Some ret)"
    by (metis length_map)
  then show "length ret = length (filter (\<lambda>x. x \<notin> set (stop_mapping_at_tensors args))
                                 (model_inputs (model args)))" by simp
qed

theorem stop_set_exclusion_witness:
  "3 \<in> set (stop_mapping_at_tensors stopped_input_args)
   \<and> (\<exists>all. reverse_model stopped_input_args = Inr (ReversedAll [5] all) \<and> all 3 = None
         \<and> Option.bind (all 0) final_tensor = Some 5)"
proof -
  have s: "3 \<in> set (stop_mapping_at_tensors stopped_input_args)"
    by (simp add: example_defs)
  obtain all where r: "reverse_model stopped_input_args = Inr (ReversedAll [5] all)"
    by (simp add: example_defs run_defs)
  from stop_set_exclusion [OF s, of 0 0 0 Map.empty "[5]" all] r
  have t: "all 3 = None"
    and m: "map (\<lambda>x. Option.bind (all x) final_tensor)
              (filter (\<lambda>x. x \<notin> set (stop_mapping_at_tensors stopped_input_args))
                 (model_inputs (model stopped_input_args)))
            = map Some [5]"
    by blast+
  from m have "Option.bind (all 0) final_tensor = Some 5"
    by (simp add: example_defs)
  with s r t show ?thesis by blast
qed

text \<open>
  Claim C6 fails on the code. Stopping the chain at its intermediate tensor 1 leaves the
  declared input 0 without any contribution; the walk skips the record producing
  tensor 1, and the final read of input 0 raises \<^verbatim>\<open>KeyError\<close> instead of returning.
\<close>

theorem severed_input_raises_KeyError:
  "reverse_model (chain_args\<lparr>stop_mapping_at_tensors := [1]\<rparr>) = Inl KeyError"
  by (simp add: example_defs run_defs)

section \<open>Properties of rule resolution\<close>

lemma initialize_reverse_mappings_lookup:
  "initialize_reverse_mappings m rm d layers init l =
     (if l \<in> set layers then Some (initialize_reverse_mapping m rm d l) else init l)"
  by (induction layers arbitrary: init) auto

lemma unresolved_is_None:
  "rm l = None \<Longrightarrow> initialize_reverse_mapping m rm None l = None"
  by (simp add: initialize_reverse_mapping_def)

lemma resolved_is_Some:
  "rm l \<noteq> None \<or> d \<noteq> None \<Longrightarrow> initialize_reverse_mapping m rm d l \<noteq> None"
  by (auto simp: initialize_reverse_mapping_def split: meta_mapping.splits option.splits)

text \<open>
  The entries that the walk creates can always be resolved, so reading the outputs of a
  record whose outputs are all present never fails.
\<close>

lemma resolvable_empty: "resolvable Map.empty"
  by (simp add: resolvable_def)

lemma resolvable_update:
  "resolvable rts \<Longrightarrow> resolvable_entry e \<Longrightarrow> resolvable (rts(X \<mapsto> e))"
  by (simp add: resolvable_def)

lemma add_reversed_tensor_resolvable:
  "add_reversed_tensor stop n i X v rts = Inr rts' \<Longrightarrow> resolvable rts \<Longrightarrow> resolvable rts'"
  by (auto simp: add_reversed_tensor_def resolvable_entry_def
      intro!: resolvable_update split: if_splits option.splits)

lemma add_reversed_tensors_from_resolvable:
  "add_reversed_tensors_from stop n i Xs vs rts = Inr rts' \<Longrightarrow> resolvable rts
   \<Longrightarrow> resolvable rts'"
proof (induction stop n i Xs vs rts rule: add_reversed_tensors_from.induct)
  case (1 stop n i X Xs v vs rts)
  from "1.prems"(1) obtain rts1 where
    a: "add_reversed_tensor stop n i X v rts = Inr rts1"
    and b: "add_reversed_tensors_from stop n (Suc i) Xs vs rts1 = Inr rts'"
    by (auto simp: then_do_eq_Inr)
  from add_reversed_tensor_resolvable [OF a "1.prems"(2)] have "resolvable rts1" .
  from "1.IH" [OF b this] show ?case .
qed simp_all

lemma get_reversed_tensor_succeeds:
  fixes rts :: "('t, 'v::plus) reversed_tensors"
  assumes "resolvable rts" and "rts t \<noteq> None"
  shows "\<exists>v rts'. get_reversed_tensor c p bts t rts = Inr (v, rts')"
proof -
  from assms(2) obtain e where e: "rts t = Some e" by auto
  with assms(1) have "final_tensor e \<noteq> None \<or> tensor e \<noteq> None \<or> (\<exists>a b. tensors e = Some [a, b])"
    by (simp add: resolvable_def resolvable_entry_def)
  then show ?thesis
    by (auto simp: get_reversed_tensor_def e Let_def split: option.splits)
qed

lemma get_reversed_tensor_resolvable:
  "get_reversed_tensor c p bts t rts = Inr (v, rts') \<Longrightarrow> resolvable rts \<Longrightarrow> resolvable rts'"
  by (auto simp: get_reversed_tensor_def resolvable_entry_def then_do_eq_Inr Let_def
      intro!: resolvable_update split: option.splits if_splits)

lemma get_reversed_tensors_succeeds:
  fixes rts :: "('t, 'v::plus) reversed_tensors"
  assumes "resolvable rts" and "list_all (\<lambda>t. rts t \<noteq> None) ts"
  shows "\<exists>vs rts'. get_reversed_tensors c p bts ts rts = Inr (vs, rts')"
  using assms
proof (induction ts arbitrary: rts)
  case Nil
  show ?case by simp
next
  case (Cons t ts)
  from Cons.prems have "rts t \<noteq> None" by simp
  from get_reversed_tensor_succeeds [OF Cons.prems(1) this] obtain v rts1 where
    a: "get_reversed_tensor c p bts t rts = Inr (v, rts1)" by blast
  from get_reversed_tensor_resolvable [OF a Cons.prems(1)] have r1: "resolvable rts1" .
  from Cons.prems(2) have "list_all (\<lambda>t. rts1 t \<noteq> None) ts"
    using get_reversed_tensor_None [OF a] by (simp add: list_all_iff)
  from Cons.IH [OF r1 this] obtain vs rts' where
    "get_reversed_tensors c p bts ts rts1 = Inr (vs, rts')" by blast
  with a show ?case by simp
qed

lemma get_reversed_tensors_resolvable:
  "get_reversed_tensors c p bts ts rts = Inr (vs, rts') \<Longrightarrow> resolvable rts \<Longrightarrow> resolvable rts'"
proof (induction ts arbitrary: rts vs)
  case Nil
  then show ?case by simp
next
  case (Cons t ts)
  from Cons.prems(1) obtain v rts1 vs' where
    a: "get_reversed_tensor c p bts t rts = Inr (v, rts1)"
    and b: "get_reversed_tensors c p bts ts rts1 = Inr (vs', rts')"
    by (auto simp: then_do_eq_Inr)
  from Cons.IH [OF b get_reversed_tensor_resolvable [OF a Cons.prems(2)]] show ?case .
qed

lemma reverse_walk_resolvable:
  fixes rts :: "('t, 'v::plus) reversed_tensors"
  assumes "reverse_walk args bts irm wo k ns rts = Inr rts'" and "resolvable rts"
  shows "resolvable rts'"
proof (rule reverse_walk_invariant [where P = resolvable, OF _ _ assms])
  show "resolvable b"
    if "get_reversed_tensors (clip_all_reversed_tensors args) (project_bottleneck_tensors args)
          bts ts a = Inr (vs, b)" and "resolvable a"
    for ts vs and a b :: "('t, 'v) reversed_tensors"
    using that by (rule get_reversed_tensors_resolvable)
  show "resolvable b"
    if "add_reversed_tensors (stop_mapping_at_tensors args) n Xs vs a = Inr b"
      and "resolvable a"
    for n Xs vs and a b :: "('t, 'v) reversed_tensors"
    using that unfolding add_reversed_tensors_def by (rule add_reversed_tensors_from_resolvable)
qed

text \<open>
  Claim C9, as amended. A layer of the layer list for which \<^verbatim>\<open>reverse_mappings\<close> yields
  nothing while no default rule is configured makes no trouble until the walk reaches
  one of its records, in a state where every entry can be resolved (as the seeding and
  the walk keep it). An input-layer record is passed over; a container record raises
  \<^verbatim>\<open>Exception("This is not supposed to happen!")\<close>, as it does with a rule; any other
  record is skipped if some output tensor of it has no contribution, and otherwise the
  run fails there with the \<^verbatim>\<open>TypeError\<close> of calling \<^verbatim>\<open>None\<close>, which carries no layer.
\<close>

theorem unresolved_rule_fails_at_first_use:
  assumes "reverse_mappings args l = None" and "default_reverse_mapping args = None"
    and "l \<in> set layers" and "resolvable rts"
  shows "reverse_walk args bts
           (initialize_reverse_mappings (model args) (reverse_mappings args)
              (default_reverse_mapping args) layers Map.empty)
           wo k ((l, Xs, Ys) # rest) rts =
         (if is_input_layer l
          then reverse_walk args bts
                 (initialize_reverse_mappings (model args) (reverse_mappings args)
                    (default_reverse_mapping args) layers Map.empty)
                 wo (Suc k) rest rts
          else if is_network l then Inl (Exception ''This is not supposed to happen!'')
          else if list_all (\<lambda>ys. rts ys \<noteq> None) Ys then Inl TypeError
          else reverse_walk args bts
                 (initialize_reverse_mappings (model args) (reverse_mappings args)
                    (default_reverse_mapping args) layers Map.empty)
                 wo (Suc k) rest rts)"
proof -
  let ?irm = "initialize_reverse_mappings (model args) (reverse_mappings args)
              (default_reverse_mapping args) layers Map.empty"
  have none: "?irm l = Some None"
    using assms(1,2,3) by (simp add: initialize_reverse_mappings_lookup unresolved_is_None)
  show ?thesis
  proof (cases "is_input_layer l \<or> is_network l")
    case True
    then show ?thesis by auto
  next
    case plain: False
    show ?thesis
    proof (cases "list_all (\<lambda>ys. rts ys \<noteq> None) Ys")
      case False
      with plain show ?thesis by simp
    next
      case True
      from get_reversed_tensors_succeeds [OF assms(4) True] obtain vs rts' where
        "get_reversed_tensors (clip_all_reversed_tensors args)
           (project_bottleneck_tensors args) bts Ys rts = Inr (vs, rts')" by blast
      with True none plain show ?thesis by simp
    qed
  qed
qed

theorem unresolved_rule_fails_at_first_use_witness:
  "reverse_walk (chain_args\<lparr>reverse_mappings := all_but (Layer 2 Primitive)\<rparr>) []
     (initialize_reverse_mappings chain_model (all_but (Layer 2 Primitive)) None
        (model_layers chain_model) Map.empty)
     2 0 [(Layer 2 Primitive, [1], [2])]
     (Map.empty(2 \<mapsto> \<lparr>id_key = (- 1, 0), tensor = Some 5, tensors = None,
                         final_tensor = None\<rparr>))
   = Inl TypeError"
proof -
  let ?rts = "Map.empty(2 \<mapsto> \<lparr>id_key = (- 1, 0), tensor = Some (5::int), tensors = None,
                            final_tensor = None\<rparr>) :: (nat, int) reversed_tensors"
  have r: "resolvable ?rts"
    by (simp add: resolvable_def resolvable_entry_def)
  show ?thesis
    using unresolved_rule_fails_at_first_use
      [where args = "chain_args\<lparr>reverse_mappings := all_but (Layer 2 Primitive)\<rparr>"
         and l = "Layer 2 Primitive" and layers = "model_layers chain_model" and rts = ?rts
         and bts = "[]" and wo = 2 and k = 0 and Xs = "[1]" and Ys = "[2]" and rest = "[]",
       OF _ _ _ r]
    by (simp add: example_defs run_defs)
qed

text \<open>
  A container record without a rule: the exception for containers comes first.
\<close>

lemma unresolved_container_raises_exception:
  "reverse_walk (chain_args\<lparr>reverse_mappings := all_but (Layer 2 Network)\<rparr>) []
     (initialize_reverse_mappings chain_model (all_but (Layer 2 Network)) None
        [Layer 2 Network] Map.empty)
     2 0 [(Layer 2 Network, [1], [2])]
     (Map.empty(2 \<mapsto> \<lparr>id_key = (- 1, 0), tensor = Some 5, tensors = None,
                         final_tensor = None\<rparr>))
   = Inl (Exception ''This is not supposed to happen!'')"
  by (simp add: is_input_layer_def is_network_def)

text \<open>
  An input layer without a rule and without a default never fails the run: the walk
  calls no rule for it.
\<close>

lemma unresolved_input_layer_is_harmless:
  "reverse_model (chain_args\<lparr>reverse_mappings := all_but (Layer 0 InputLayer)\<rparr>)
     = Inr (ReversedInputs [5])"
  by (simp add: example_defs run_defs)

text \<open>
  Claim C9 as stated fails: whether layer 1 or layer 2 of the chain is the one without
  a rule, the run ends with the very same error value, the \<^verbatim>\<open>TypeError\<close> of the call,
  which names neither and is no error of the engine's own.
\<close>

theorem missing_mapping_error_is_anonymous:
  "reverse_model (chain_args\<lparr>reverse_mappings := all_but (Layer 1 Primitive)\<rparr>)
     = Inl TypeError
   \<and> reverse_model (chain_args\<lparr>reverse_mappings := all_but (Layer 2 Primitive)\<rparr>)
     = Inl TypeError"
  by (simp add: example_defs run_defs)

section \<open>Argument validation\<close>

text \<open>
  Claim C10. With \<^verbatim>\<open>clip_all_reversed_tensors\<close> equal to \<^verbatim>\<open>True\<close>, \<^verbatim>\<open>reverse_model\<close>
  raises \<^verbatim>\<open>NotImplementedError\<close> whatever the model, the trace and the remaining
  arguments are: nothing is traced or reversed before.
\<close>

theorem clip_True_not_implemented:
  "clip_all_reversed_tensors args = ClipTrue \<Longrightarrow> reverse_model args = Inl NotImplementedError"
  by (simp add: reverse_model_def)

theorem clip_True_not_implemented_witness:
  "reverse_model (chain_args\<lparr>clip_all_reversed_tensors := ClipTrue\<rparr>) = Inl NotImplementedError"
  using clip_True_not_implemented [of "chain_args\<lparr>clip_all_reversed_tensors := ClipTrue\<rparr>"]
  by simp

end
